theory Spec2Isabelle
  imports Main "HOL-Library.Sublist"
begin

section \<open>The devfile registry index generator\<close>

text \<open>
  A shallow embedding of the index generator library (\<^verbatim>\<open>index/generator/library\<close>):
  the index builder (\<^verbatim>\<open>GenerateIndexStruct\<close> and the functions it calls) and the
  remote stack download of \<^verbatim>\<open>util.go\<close>. Everything outside the two files (the
  operating system, the YAML codec, the devfile parser, go-git) is an explicit parameter:
  a record of functions that answers each call the code makes.
\<close>

subsection \<open>Data model\<close>

type_synonym path = string

text \<open>
  \<^verbatim>\<open>schema.DevfileType\<close> is a Go string type with the two named values the code compares
  against; any other string (the zero value included) is \<open>OtherDevfileType\<close>.
\<close>

datatype DevfileType = SampleDevfileType | StackDevfileType | OtherDevfileType string

text \<open>
  Modelled from the spec: the package \<^verbatim>\<open>schema\<close> (the structs \<^verbatim>\<open>Git\<close>,
  \<^verbatim>\<open>Version\<close>, \<^verbatim>\<open>Schema\<close>, \<^verbatim>\<open>Devfile\<close>, \<^verbatim>\<open>ExtraDevfileEntries\<close>) is
  not among the source files. The records below have the fields the spec's data model lists
  and the code reads or writes, under the names the code uses. A Go map or slice that the
  code compares with \<^verbatim>\<open>nil\<close> is an \<open>option\<close> (\<open>None\<close> is \<^verbatim>\<open>nil\<close>); a pointer
  that may be \<^verbatim>\<open>nil\<close> is an \<open>option\<close> too. \<open>Remotes\<close> lists the key/value pairs of
  the Go map, so its length is \<^verbatim>\<open>len\<close> of the map. \<open>Schema.Version\<close> is the
  \<^verbatim>\<open>version\<close> of a devfile's metadata, which \<^verbatim>\<open>parseStackDevfile\<close> reads back
  from the metadata as the version's identifier.
\<close>

record Git =
  Url :: string
  RemoteName :: string
  SubDir :: string
  Revision :: string
  Remotes :: "(string \<times> string) list"

record Version =
  Version :: string
  SchemaVersion :: string
  Default :: bool
  Git :: "Git option"
  Description :: string
  Tags :: "string list"
  Architectures :: "string list"
  Icon :: string
  Links :: "(string \<rightharpoonup> string) option"
  Resources :: "string list"
  StarterProjects :: "string list"

text \<open>
  The metadata of a devfile as the devfile library returns it
  (\<^verbatim>\<open>devfileObj.Data.GetMetadata()\<close>); only the four fields that
  \<^verbatim>\<open>checkForRequiredMetadata\<close> reads.
\<close>

record DevfileMetadata =
  Name :: string
  DisplayName :: string
  Language :: string
  ProjectType :: string

record Schema =
  Name :: string
  Version :: string
  DisplayName :: string
  Description :: string
  Type :: DevfileType
  Tags :: "string list"
  Architectures :: "string list"
  Icon :: string
  ProjectType :: string
  Language :: string
  Provider :: string
  SupportUrl :: string
  Git :: "Git option"
  Links :: "(string \<rightharpoonup> string) option"
  Resources :: "string list option"
  Versions :: "Version list"

datatype StarterProject = StarterProject (starterProjectName: string)

record Devfile =
  Meta :: Schema
  StarterProjects :: "StarterProject list"
  SchemaVersion :: string

record ExtraDevfileEntries =
  Samples :: "Schema list"
  Stacks :: "Schema list"

text \<open>The zero values \<^verbatim>\<open>schema.Version{}\<close> and \<^verbatim>\<open>var indexComponent schema.Schema\<close>.\<close>

definition zeroVersion :: Version where
  "zeroVersion =
     \<lparr>Version.Version = [], Version.SchemaVersion = [], Default = False, Version.Git = None,
      Version.Description = [], Version.Tags = [], Version.Architectures = [],
      Version.Icon = [], Version.Links = None, Version.Resources = [],
      Version.StarterProjects = []\<rparr>"

definition zeroSchema :: Schema where
  "zeroSchema =
     \<lparr>Schema.Name = [], Schema.Version = [], Schema.DisplayName = [],
      Schema.Description = [],
      Type = OtherDevfileType [], Schema.Tags = [], Schema.Architectures = [],
      Schema.Icon = [], Schema.ProjectType = [], Schema.Language = [], Provider = [],
      SupportUrl = [], Schema.Git = None, Schema.Links = None, Schema.Resources = None,
      Versions = []\<rparr>"

subsection \<open>Errors\<close>

text \<open>
  One constructor for each error the code builds (\<^verbatim>\<open>fmt.Errorf\<close> and the three error
  types), with the values its message is formatted from; an underlying error of the
  environment is not kept. \<open>PanicNilDereference\<close> is not a returned error: it is the
  run-time panic of a method call on a \<^verbatim>\<open>nil\<close> interface value. The last seven
  are errors that the environment of \<^verbatim>\<open>util.go\<close> returns: of \<^verbatim>\<open>ioutil.TempDir\<close>, of
  go-git (\<^verbatim>\<open>NoMatchingRefSpecError\<close> is the one the code tests for), of the filesystem
  interface and of the extraction.
\<close>

datatype error =
    PanicNilDereference
  | PathDoesNotExist path
  | NotADirectory path
  | ReadStackDirFailed path
  | StackYamlNotValid string "error list"
  | BothExist path path
  | DevfileNotValid path
  | DevfileMetadataNotValid path "error list"
  | FailedToRead path
  | FailedToUnmarshal path
  | ReadDirFailed path
  | MetadataNameNotSet
  | MetadataDisplayNameNotSet
  | MetadataLanguageNotSet
  | MetadataProjectTypeNotSet
  | StackNameNotSet
  | StackDisplayNameNotSet
  | StackIconNotSet
  | StackVersionsNotSet
  | MultipleDefaultVersions
  | NoDefaultVersion
  | ResourceFolderNotFound string error
  | NameNotInitialized
  | LinksEmpty
  | ResourcesEmpty
  | GitEmpty
  | MultipleRemotes
  | MissingProviderError string
  | MissingSupportUrlError string
  | MissingArchError string
  | SampleWithoutDevfile string
  | SampleDevfileNotValid string
  | IndexComponentNotValid string error
  | TempDirFailed
  | CloneFailed string
  | NoMatchingRefSpecError
  | OpenFailed "string list"
  | ReaddirFailed "string list"
  | RemoveFailed "string list"
  | SubDirFailed

subsection \<open>The environment of the index builder\<close>

text \<open>
  \<open>osStat\<close> answers \<^verbatim>\<open>os.Stat\<close>: the path does not exist (the one error
  \<^verbatim>\<open>os.IsNotExist\<close> recognises), the call fails with another error (permission denied,
  a path component that is not a directory, a name too long), or it returns the file
  information, of which the code reads \<^verbatim>\<open>IsDir()\<close>.
\<close>

datatype stat = StatNotExist | StatFailed | StatInfo bool

text \<open>
  \<open>ioReadDir\<close> is \<^verbatim>\<open>ioutil.ReadDir\<close> (name and \<^verbatim>\<open>IsDir()\<close> of each entry),
  \<open>ioReadFile\<close> is \<^verbatim>\<open>ioutil.ReadFile\<close>, the \<open>yaml\<close> fields are \<^verbatim>\<open>yaml.Unmarshal\<close>
  into the struct named and \<^verbatim>\<open>yaml.Marshal\<close> of a \<^verbatim>\<open>Schema\<close>, and the last two are the
  devfile library's parser. \<open>None\<close> (or \<open>False\<close>) is a returned error.
\<close>

record env =
  osStat :: "path \<Rightarrow> stat"
  ioReadDir :: "path \<Rightarrow> (string \<times> bool) list option"
  ioReadFile :: "path \<Rightarrow> string option"
  yamlSchema :: "string \<Rightarrow> Schema option"
  yamlDevfile :: "string \<Rightarrow> Devfile option"
  yamlMarshal :: "Schema \<Rightarrow> string option"
  yamlVersion :: "string \<Rightarrow> Version option"
  yamlExtraDevfileEntries :: "string \<Rightarrow> ExtraDevfileEntries option"
  ParseDevfileAndValidate :: "path \<Rightarrow> DevfileMetadata option"
  ParseAndValidate :: "path \<Rightarrow> bool"

text \<open>
  \<^verbatim>\<open>path.Join\<close> and \<^verbatim>\<open>filepath.Join\<close> of a path and one more element: empty
  elements are ignored, the others are joined by a slash. The lexical clean-up that
  \<^verbatim>\<open>Join\<close> adds is left out: paths are only keys the environment is asked about.
\<close>

definition pathJoin :: "path \<Rightarrow> string \<Rightarrow> path" where
  "pathJoin dir elem =
     (if elem = [] then dir else if dir = [] then elem else dir @ ''/'' @ elem)"

definition devfile :: string where "devfile = ''devfile.yaml''"
definition devfileHidden :: string where "devfileHidden = ''.devfile.yaml''"
definition extraDevfileEntries :: string where "extraDevfileEntries = ''extraDevfileEntries.yaml''"
definition stackYaml :: string where "stackYaml = ''stack.yaml''"

subsection \<open>\<^verbatim>\<open>util.go\<close>: the filesystem probe\<close>

fun inArray :: "string list \<Rightarrow> string \<Rightarrow> bool" where
  "inArray [] v = False"
| "inArray (item # arr) v = (if item = v then True else inArray arr v)"

definition fileExists :: "env \<Rightarrow> path \<Rightarrow> bool" where
  "fileExists e filepath = (if osStat e filepath = StatNotExist then False else True)"

text \<open>
  \<^verbatim>\<open>dirExists\<close> returns an error or \<^verbatim>\<open>nil\<close> (\<open>Inr\<close>). When \<^verbatim>\<open>os.Stat\<close> fails
  with an error other than not-exist, \<^verbatim>\<open>dir\<close> is \<^verbatim>\<open>nil\<close> and \<^verbatim>\<open>dir.IsDir()\<close>
  panics (\<open>Inl\<close>).
\<close>

definition dirExists :: "env \<Rightarrow> path \<Rightarrow> error + error option" where
  "dirExists e dirpath =
     (case osStat e dirpath of
        StatNotExist \<Rightarrow> Inr (Some (PathDoesNotExist dirpath))
      | StatFailed \<Rightarrow> Inl PanicNilDereference
      | StatInfo isDir \<Rightarrow> if \<not> isDir then Inr (Some (NotADirectory dirpath)) else Inr None)"

subsection \<open>Validation\<close>

text \<open>\<^verbatim>\<open>checkForRequiredMetadata\<close>: the list of errors, empty for \<^verbatim>\<open>nil\<close>.\<close>

definition checkForRequiredMetadata :: "DevfileMetadata \<Rightarrow> error list" where
  "checkForRequiredMetadata devfileMetadata =
     (if DevfileMetadata.Name devfileMetadata = [] then [MetadataNameNotSet] else []) @
     (if DevfileMetadata.DisplayName devfileMetadata = [] then [MetadataDisplayNameNotSet] else []) @
     (if DevfileMetadata.Language devfileMetadata = [] then [MetadataLanguageNotSet] else []) @
     (if DevfileMetadata.ProjectType devfileMetadata = [] then [MetadataProjectTypeNotSet] else [])"

text \<open>
  The loop of \<^verbatim>\<open>validateStackInfo\<close> over \<^verbatim>\<open>stackInfo.Versions\<close>, with the two
  variables it updates, \<^verbatim>\<open>hasDefault\<close> and \<^verbatim>\<open>errors\<close>: a default version appends
  the error of a second default when \<^verbatim>\<open>hasDefault\<close> is set already and sets it
  otherwise. \<open>Inl\<close> is the panic of \<open>dirExists\<close>.
\<close>

fun validateVersions ::
  "env \<Rightarrow> path \<Rightarrow> Version list \<Rightarrow> bool \<Rightarrow> error list \<Rightarrow> error + (bool \<times> error list)" where
  "validateVersions e stackfolderDir [] hasDefault errors = Inr (hasDefault, errors)"
| "validateVersions e stackfolderDir (version # rest) hasDefault errors =
     (let errors1 = (if Default version \<and> hasDefault
                     then errors @ [MultipleDefaultVersions] else errors);
          hasDefault1 = (if Default version then True else hasDefault)
      in if Version.Git version = None
         then (case dirExists e (pathJoin stackfolderDir (Version.Version version)) of
                 Inl p \<Rightarrow> Inl p
               | Inr None \<Rightarrow> validateVersions e stackfolderDir rest hasDefault1 errors1
               | Inr (Some err) \<Rightarrow>
                   validateVersions e stackfolderDir rest hasDefault1
                     (errors1 @ [ResourceFolderNotFound (Version.Version version) err]))
         else validateVersions e stackfolderDir rest hasDefault1 errors1)"

definition validateStackInfo :: "env \<Rightarrow> Schema \<Rightarrow> path \<Rightarrow> error + error list" where
  "validateStackInfo e stackInfo stackfolderDir =
     (let errors =
            (if Schema.Name stackInfo = [] then [StackNameNotSet] else []) @
            (if Schema.DisplayName stackInfo = [] then [StackDisplayNameNotSet] else []) @
            (if Schema.Icon stackInfo = [] then [StackIconNotSet] else []) @
            (if Versions stackInfo = [] then [StackVersionsNotSet] else [])
      in case validateVersions e stackfolderDir (Versions stackInfo) False errors of
           Inl p \<Rightarrow> Inl p
         | Inr (hasDefault, errors1) \<Rightarrow>
             Inr (if \<not> hasDefault then errors1 @ [NoDefaultVersion] else errors1))"

text \<open>\<^verbatim>\<open>validateIndexComponent\<close>: the error returned, \<open>None\<close> for \<^verbatim>\<open>nil\<close>.\<close>

definition validateIndexComponent :: "Schema \<Rightarrow> DevfileType \<Rightarrow> error option" where
  "validateIndexComponent indexComponent componentType =
     (let kindError =
            (if componentType = StackDevfileType then
               (if Schema.Name indexComponent = [] then Some NameNotInitialized
                else if Schema.Links indexComponent = None then Some LinksEmpty
                else if Schema.Resources indexComponent = None then Some ResourcesEmpty
                else None)
             else if componentType = SampleDevfileType then
               (case Schema.Git indexComponent of
                  None \<Rightarrow> Some GitEmpty
                | Some git \<Rightarrow> if length (Remotes git) > 1 then Some MultipleRemotes else None)
             else None)
      in case kindError of
           Some err \<Rightarrow> Some err
         | None \<Rightarrow>
             if Provider indexComponent = [] then
               Some (MissingProviderError (Schema.Name indexComponent))
             else if SupportUrl indexComponent = [] then
               Some (MissingSupportUrlError (Schema.Name indexComponent))
             else if length (Schema.Architectures indexComponent) = 0 then
               Some (MissingArchError (Schema.Name indexComponent))
             else None)"

text \<open>
  The type switch that both callers of \<^verbatim>\<open>validateIndexComponent\<close> are written with:
  the three error types that are printed instead of returned.
\<close>

fun isMissingFieldError :: "error \<Rightarrow> bool" where
  "isMissingFieldError (MissingProviderError d) = True"
| "isMissingFieldError (MissingSupportUrlError d) = True"
| "isMissingFieldError (MissingArchError d) = True"
| "isMissingFieldError err = False"

subsection \<open>The version merge: \<^verbatim>\<open>parseStackDevfile\<close>\<close>

text \<open>Lines 251--259: which of the two file names is read; both present is an error.\<close>

definition devfileLocation :: "env \<Rightarrow> path \<Rightarrow> error + path" where
  "devfileLocation e devfileDirPath =
     (let devfilePath = pathJoin devfileDirPath devfile;
          devfileHiddenPath = pathJoin devfileDirPath devfileHidden
      in if fileExists e devfilePath \<and> fileExists e devfileHiddenPath
         then Inl (BothExist devfilePath devfileHiddenPath)
         else if fileExists e devfileHiddenPath then Inr devfileHiddenPath
         else Inr devfilePath)"

text \<open>Lines 261--272: the devfile validation, skipped under \<^verbatim>\<open>force\<close>.\<close>

definition devfileValidation :: "env \<Rightarrow> bool \<Rightarrow> path \<Rightarrow> path \<Rightarrow> error option" where
  "devfileValidation e force devfilePath devfileDirPath =
     (if \<not> force then
        (case ParseDevfileAndValidate e devfilePath of
           None \<Rightarrow> Some (DevfileNotValid devfileDirPath)
         | Some devfileObj \<Rightarrow>
             (case checkForRequiredMetadata devfileObj of
                [] \<Rightarrow> None
              | err # errs \<Rightarrow> Some (DevfileMetadataNotValid devfileDirPath (err # errs))))
      else None)"

text \<open>
  Lines 274--293: the file is read and parsed as a \<^verbatim>\<open>Devfile\<close>; its metadata is
  written out again and read back as a \<^verbatim>\<open>Version\<close> (\<^verbatim>\<open>versionProp\<close>).
\<close>

definition readDevfile :: "env \<Rightarrow> path \<Rightarrow> error + (Devfile \<times> Version)" where
  "readDevfile e devfilePath =
     (case ioReadFile e devfilePath of
        None \<Rightarrow> Inl (FailedToRead devfilePath)
      | Some bytes \<Rightarrow>
          (case yamlDevfile e bytes of
             None \<Rightarrow> Inl (FailedToUnmarshal devfilePath)
           | Some dvf \<Rightarrow>
               (case yamlMarshal e (Meta dvf) of
                  None \<Rightarrow> Inl (FailedToUnmarshal devfilePath)
                | Some metaBytes \<Rightarrow>
                    (case yamlVersion e metaBytes of
                       None \<Rightarrow> Inl (FailedToUnmarshal devfilePath)
                     | Some versionProp \<Rightarrow> Inr (dvf, versionProp)))))"

text \<open>Lines 295--322: each of the eight fields is set from the metadata if it is empty.\<close>

definition setCommonProperties :: "Schema \<Rightarrow> Schema \<Rightarrow> Schema" where
  "setCommonProperties meta indexComponent =
     indexComponent
       \<lparr>Schema.ProjectType :=
          (if Schema.ProjectType indexComponent = [] then Schema.ProjectType meta
           else Schema.ProjectType indexComponent),
        Schema.Language :=
          (if Schema.Language indexComponent = [] then Schema.Language meta
           else Schema.Language indexComponent),
        Provider :=
          (if Provider indexComponent = [] then Provider meta else Provider indexComponent),
        SupportUrl :=
          (if SupportUrl indexComponent = [] then SupportUrl meta
           else SupportUrl indexComponent),
        Schema.Name :=
          (if Schema.Name indexComponent = [] then Schema.Name meta
           else Schema.Name indexComponent),
        Schema.DisplayName :=
          (if Schema.DisplayName indexComponent = [] then Schema.DisplayName meta
           else Schema.DisplayName indexComponent),
        Schema.Description :=
          (if Schema.Description indexComponent = [] then Schema.Description meta
           else Schema.Description indexComponent),
        Schema.Icon :=
          (if Schema.Icon indexComponent = [] then Schema.Icon meta
           else Schema.Icon indexComponent)\<rparr>"

text \<open>
  Lines 324--334: \<^verbatim>\<open>versionProp\<close> takes the \<^verbatim>\<open>Default\<close> of the version passed in
  and replaces it; then the link, the schema version and the starter projects are set.
\<close>

definition selfLink :: "string \<Rightarrow> string \<Rightarrow> string" where
  "selfLink stackName version = ''devfile-catalog'' @ ''/'' @ stackName @ '':'' @ version"

definition populateVersion :: "string \<Rightarrow> Devfile \<Rightarrow> Version \<Rightarrow> Version \<Rightarrow> Version" where
  "populateVersion stackName dvf versionProp versionComponent =
     (let v1 = versionProp\<lparr>Default := Default versionComponent\<rparr>;
          links = (case Version.Links v1 of None \<Rightarrow> Map.empty | Some m \<Rightarrow> m)
      in v1\<lparr>Version.Links := Some (links(''self'' \<mapsto> selfLink stackName (Version.Version v1))),
            Version.SchemaVersion := Devfile.SchemaVersion dvf,
            Version.StarterProjects :=
              Version.StarterProjects v1 @ map starterProjectName (Devfile.StarterProjects dvf)\<rparr>)"

text \<open>
  Lines 336--346, the same loop twice: each item that is not yet in the list of the index
  component is appended to it.
\<close>

fun appendMissing :: "string list \<Rightarrow> string list \<Rightarrow> string list" where
  "appendMissing arr [] = arr"
| "appendMissing arr (item # items) =
     (if \<not> inArray arr item then appendMissing (arr @ [item]) items
      else appendMissing arr items)"

text \<open>
  \<^verbatim>\<open>parseStackDevfile\<close> returns an error, or the version and the index component that
  the code leaves behind its two pointers.
\<close>

definition parseStackDevfile ::
  "env \<Rightarrow> path \<Rightarrow> string \<Rightarrow> bool \<Rightarrow> Version \<Rightarrow> Schema \<Rightarrow> error + (Version \<times> Schema)" where
  "parseStackDevfile e devfileDirPath stackName force versionComponent indexComponent =
     (case devfileLocation e devfileDirPath of
        Inl err \<Rightarrow> Inl err
      | Inr devfilePath \<Rightarrow>
          (case devfileValidation e force devfilePath devfileDirPath of
             Some err \<Rightarrow> Inl err
           | None \<Rightarrow>
               (case readDevfile e devfilePath of
                  Inl err \<Rightarrow> Inl err
                | Inr (dvf, versionProp) \<Rightarrow>
                    (let ic1 = setCommonProperties (Meta dvf) indexComponent;
                         v1 = populateVersion stackName dvf versionProp versionComponent;
                         ic2 = ic1\<lparr>Schema.Tags :=
                                     appendMissing (Schema.Tags ic1) (Version.Tags v1)\<rparr>;
                         ic3 = ic2\<lparr>Schema.Architectures :=
                                     appendMissing (Schema.Architectures ic2)
                                       (Version.Architectures v1)\<rparr>
                     in case ioReadDir e devfileDirPath of
                          None \<Rightarrow> Inl (ReadDirFailed devfileDirPath)
                        | Some stackFiles \<Rightarrow>
                            Inr (v1\<lparr>Version.Resources :=
                                      Version.Resources v1 @
                                      map fst (filter (\<lambda>stackFile. \<not> snd stackFile) stackFiles)\<rparr>,
                                 ic3)))))"

subsection \<open>The registry walk: \<^verbatim>\<open>parseDevfileRegistry\<close>\<close>

definition parseStackInfo :: "env \<Rightarrow> path \<Rightarrow> error + Schema" where
  "parseStackInfo e stackYamlPath =
     (case ioReadFile e stackYamlPath of
        None \<Rightarrow> Inl (FailedToRead stackYamlPath)
      | Some bytes \<Rightarrow>
          (case yamlSchema e bytes of
             None \<Rightarrow> Inl (FailedToUnmarshal stackYamlPath)
           | Some index \<Rightarrow> Inr index))"

text \<open>
  Lines 150--160: the loop over \<^verbatim>\<open>indexComponent.Versions\<close>. The range expression is
  evaluated once, so the loop runs over the versions as they were (\<open>vs\<close>), with the index
  \<open>i\<close>; a version without \<^verbatim>\<open>Git\<close> is parsed and written back at its index.
\<close>

fun versionsLoop ::
  "env \<Rightarrow> path \<Rightarrow> string \<Rightarrow> bool \<Rightarrow> nat \<Rightarrow> Version list \<Rightarrow> Schema \<Rightarrow> error + Schema" where
  "versionsLoop e stackFolderPath stackName force i [] indexComponent = Inr indexComponent"
| "versionsLoop e stackFolderPath stackName force i (versionComponent # vs) indexComponent =
     (if Version.Git versionComponent = None then
        (case parseStackDevfile e (pathJoin stackFolderPath (Version.Version versionComponent))
                stackName force versionComponent indexComponent of
           Inl err \<Rightarrow> Inl err
         | Inr (v1, ic1) \<Rightarrow>
             versionsLoop e stackFolderPath stackName force (Suc i) vs
               (ic1\<lparr>Versions := (Versions ic1)[i := v1]\<rparr>))
      else versionsLoop e stackFolderPath stackName force (Suc i) vs indexComponent)"

text \<open>Lines 134--170: the body of the loop over the stack folders, for one directory.\<close>

definition parseStackFolder :: "env \<Rightarrow> path \<Rightarrow> bool \<Rightarrow> string \<Rightarrow> error + Schema" where
  "parseStackFolder e stackDirPath force folderName =
     (let stackFolderPath = pathJoin stackDirPath folderName;
          stackYamlPath = pathJoin stackFolderPath stackYaml;
          parsed =
            (if fileExists e stackYamlPath then
               (case parseStackInfo e stackYamlPath of
                  Inl err \<Rightarrow> Inl err
                | Inr indexComponent \<Rightarrow>
                    (case (if \<not> force then validateStackInfo e indexComponent stackFolderPath
                           else Inr []) of
                       Inl p \<Rightarrow> Inl p
                     | Inr (err # errs) \<Rightarrow> Inl (StackYamlNotValid folderName (err # errs))
                     | Inr [] \<Rightarrow>
                         versionsLoop e stackFolderPath folderName force 0
                           (Versions indexComponent) indexComponent))
             else
               (case parseStackDevfile e stackFolderPath folderName force zeroVersion zeroSchema of
                  Inl err \<Rightarrow> Inl err
                | Inr (versionComponent, indexComponent) \<Rightarrow>
                    Inr (indexComponent
                           \<lparr>Versions := Versions indexComponent @
                              [versionComponent\<lparr>Default := True\<rparr>]\<rparr>)))
      in case parsed of
           Inl err \<Rightarrow> Inl err
         | Inr indexComponent \<Rightarrow> Inr (indexComponent\<lparr>Type := StackDevfileType\<rparr>))"

text \<open>Lines 130--245: the loop over the entries of \<^verbatim>\<open>stacks\<close>; only directories count.\<close>

fun stackFoldersLoop ::
  "env \<Rightarrow> path \<Rightarrow> bool \<Rightarrow> (string \<times> bool) list \<Rightarrow> Schema list \<Rightarrow> error + Schema list" where
  "stackFoldersLoop e stackDirPath force [] index = Inr index"
| "stackFoldersLoop e stackDirPath force (stackFolderDir # rest) index =
     (if \<not> snd stackFolderDir then stackFoldersLoop e stackDirPath force rest index
      else (case parseStackFolder e stackDirPath force (fst stackFolderDir) of
              Inl err \<Rightarrow> Inl err
            | Inr indexComponent \<Rightarrow>
                stackFoldersLoop e stackDirPath force rest (index @ [indexComponent])))"

definition parseDevfileRegistry :: "env \<Rightarrow> path \<Rightarrow> bool \<Rightarrow> error + Schema list" where
  "parseDevfileRegistry e registryDirPath force =
     (let stackDirPath = pathJoin registryDirPath ''stacks''
      in case ioReadDir e stackDirPath of
           None \<Rightarrow> Inl (ReadStackDirFailed stackDirPath)
         | Some stackDir \<Rightarrow> stackFoldersLoop e stackDirPath force stackDir [])"

subsection \<open>The supplemental entries: \<^verbatim>\<open>parseExtraDevfileEntries\<close>\<close>

text \<open>
  Lines 413--426: the devfile of a cached sample must exist and must be valid. The check
  \<^verbatim>\<open>err != nil\<close> on \<^verbatim>\<open>os.Stat\<close> fails for every error, not only for not-exist.
\<close>

definition sampleValidation :: "env \<Rightarrow> path \<Rightarrow> Schema \<Rightarrow> error option" where
  "sampleValidation e samplesDir devfileEntry =
     (let devfilePath =
            pathJoin (pathJoin samplesDir (Schema.Name devfileEntry)) ''devfile.yaml''
      in case osStat e devfilePath of
           StatInfo isDir \<Rightarrow>
             if ParseAndValidate e devfilePath then None
             else Some (SampleDevfileNotValid (Schema.Name devfileEntry))
         | StatNotExist \<Rightarrow> Some (SampleWithoutDevfile (Schema.Name devfileEntry))
         | StatFailed \<Rightarrow> Some (SampleWithoutDevfile (Schema.Name devfileEntry)))"

text \<open>
  Lines 407--441, the body of the inner loop for one entry: the component to append or the
  error returned, and what is printed on the way (the errors whose message is printed).
\<close>

definition extraEntry ::
  "env \<Rightarrow> bool \<Rightarrow> bool \<Rightarrow> path \<Rightarrow> DevfileType \<Rightarrow> Schema \<Rightarrow> (error + Schema) \<times> error list" where
  "extraEntry e force validateSamples samplesDir devfileType devfileEntry =
     (let indexComponent = devfileEntry\<lparr>Type := devfileType\<rparr>
      in if \<not> force then
           (case (if Type indexComponent = SampleDevfileType \<and> validateSamples
                  then sampleValidation e samplesDir devfileEntry else None) of
              Some err \<Rightarrow> (Inl err, [])
            | None \<Rightarrow>
                (case validateIndexComponent indexComponent devfileType of
                   None \<Rightarrow> (Inr indexComponent, [])
                 | Some err \<Rightarrow>
                     if isMissingFieldError err then (Inr indexComponent, [err])
                     else (Inl (IndexComponentNotValid (Schema.Name indexComponent) err), [])))
         else (Inr indexComponent, []))"

fun extraEntriesLoop ::
  "env \<Rightarrow> bool \<Rightarrow> bool \<Rightarrow> path \<Rightarrow> DevfileType \<Rightarrow> Schema list \<Rightarrow> Schema list \<Rightarrow> error list \<Rightarrow>
     (error + Schema list) \<times> error list" where
  "extraEntriesLoop e force validateSamples samplesDir devfileType [] index out =
     (Inr index, out)"
| "extraEntriesLoop e force validateSamples samplesDir devfileType (devfileEntry # rest) index out =
     (case extraEntry e force validateSamples samplesDir devfileType devfileEntry of
        (Inl err, printed) \<Rightarrow> (Inl err, out @ printed)
      | (Inr indexComponent, printed) \<Rightarrow>
          extraEntriesLoop e force validateSamples samplesDir devfileType rest
            (index @ [indexComponent]) (out @ printed))"

text \<open>The two kinds are run through in the order of \<^verbatim>\<open>devfileTypes\<close>: samples, then stacks.\<close>

definition parseExtraDevfileEntries ::
  "env \<Rightarrow> path \<Rightarrow> bool \<Rightarrow> (error + Schema list) \<times> error list" where
  "parseExtraDevfileEntries e registryDirPath force =
     (let extraDevfileEntriesPath = pathJoin registryDirPath extraDevfileEntries
      in case ioReadFile e extraDevfileEntriesPath of
           None \<Rightarrow> (Inl (FailedToRead extraDevfileEntriesPath), [])
         | Some bytes \<Rightarrow>
             (let samplesDir = pathJoin registryDirPath ''samples'';
                  validateSamples = (osStat e samplesDir \<noteq> StatNotExist)
              in case yamlExtraDevfileEntries e bytes of
                   None \<Rightarrow> (Inl (FailedToUnmarshal extraDevfileEntriesPath), [])
                 | Some devfileEntries \<Rightarrow>
                     (case extraEntriesLoop e force validateSamples samplesDir
                             SampleDevfileType (Samples devfileEntries) [] [] of
                        (Inl err, out) \<Rightarrow> (Inl err, out)
                      | (Inr index, out) \<Rightarrow>
                          extraEntriesLoop e force validateSamples samplesDir
                            StackDevfileType (Stacks devfileEntries) index out)))"

text \<open>
  \<^verbatim>\<open>GenerateIndexStruct\<close>, with what is printed on the way. The index that the code
  returns beside an error is not kept.
\<close>

definition GenerateIndexStruct ::
  "env \<Rightarrow> path \<Rightarrow> bool \<Rightarrow> (error + Schema list) \<times> error list" where
  "GenerateIndexStruct e registryDirPath force =
     (case parseDevfileRegistry e registryDirPath force of
        Inl err \<Rightarrow> (Inl err, [])
      | Inr index \<Rightarrow>
          if fileExists e (pathJoin registryDirPath extraDevfileEntries) then
            (case parseExtraDevfileEntries e registryDirPath force of
               (Inl err, out) \<Rightarrow> (Inl err, out)
             | (Inr indexFromExtraDevfileEntries, out) \<Rightarrow>
                 (Inr (index @ indexFromExtraDevfileEntries), out))
          else (Inr index, []))"

section \<open>The remote stack fetcher\<close>

subsection \<open>\<^verbatim>\<open>downloadRemoteStack\<close>\<close>

text \<open>
  \<^verbatim>\<open>gitpkg.CloneOptions\<close>, with the five fields the code sets. A
  \<^verbatim>\<open>plumbing.ReferenceName\<close> is a string: the conversion \<^verbatim>\<open>plumbing.ReferenceName(s)\<close>
  is \<open>s\<close> itself, and the two constructors put the prefix of a branch or of a tag in
  front of the name.
\<close>

record CloneOptions =
  URL :: string
  RemoteName :: string
  ReferenceName :: string
  SingleBranch :: bool
  Depth :: nat

definition NewBranchReferenceName :: "string \<Rightarrow> string" where
  "NewBranchReferenceName name = ''refs/heads/'' @ name"

definition NewTagReferenceName :: "string \<Rightarrow> string" where
  "NewTagReferenceName name = ''refs/tags/'' @ name"

text \<open>
  What the function calls outside the file: \<^verbatim>\<open>plumbing.IsHash\<close>, \<^verbatim>\<open>ioutil.TempDir\<close>
  (the directory created, or \<open>None\<close> for an error), \<^verbatim>\<open>gitpkg.PlainClone\<close> (the error of
  the first call, number 0, and of the second, number 1; \<open>None\<close> is success),
  \<^verbatim>\<open>os.RemoveAll\<close> (whether it returns an error) and the extraction \<^verbatim>\<open>GitSubDir\<close>, which
  is taken by its result here; its interrupt handler is modelled on a filesystem below.
\<close>

record gitWorld =
  IsHash :: "string \<Rightarrow> bool"
  TempDir :: "path option"
  PlainClone :: "nat \<Rightarrow> path \<Rightarrow> CloneOptions \<Rightarrow> error option"
  RemoveAllFails :: "path \<Rightarrow> bool"
  GitSubDir :: "path \<Rightarrow> path \<Rightarrow> string \<Rightarrow> error option"

text \<open>The calls with an effect, in the order the function makes them.\<close>

datatype event =
    PrintCommitNotSupported
  | MakeTempDir path
  | Clone path CloneOptions
  | Remove path
  | PrintUnableToDeleteGit
  | ExtractSubDir path path string

text \<open>
  Lines 91--105, after the clone has succeeded: \<^verbatim>\<open>.git\<close> is removed and the
  subdirectory, if one is asked for, is extracted.
\<close>

definition finishDownload ::
  "gitWorld \<Rightarrow> Git \<Rightarrow> path \<Rightarrow> path \<Rightarrow> error option \<times> event list" where
  "finishDownload w git originalPath path =
     (let removal = Remove (pathJoin path ''.git'') #
                    (if RemoveAllFails w (pathJoin path ''.git'')
                     then [PrintUnableToDeleteGit] else [])
      in if Git.SubDir git \<noteq> []
         then (GitSubDir w path originalPath (Git.SubDir git),
               removal @ [ExtractSubDir path originalPath (Git.SubDir git)])
         else (None, removal))"

definition downloadRemoteStack ::
  "gitWorld \<Rightarrow> Git \<Rightarrow> path \<Rightarrow> error option \<times> event list" where
  "downloadRemoteStack w git path0 =
     (let refName0 = Git.Revision git;
          isHash = IsHash w (Git.Revision git);
          revision = (if isHash then [] else Git.Revision git);
          printed = (if isHash then [PrintCommitNotSupported] else []);
          refName = (if revision \<noteq> [] then NewBranchReferenceName revision else refName0);
          cloneOptions =
            \<lparr>URL = Git.Url git, CloneOptions.RemoteName = Git.RemoteName git,
             ReferenceName = refName, SingleBranch = True, Depth = 1\<rparr>
      in case (if Git.SubDir git \<noteq> []
               then (case TempDir w of
                       None \<Rightarrow> Inl TempDirFailed
                     | Some tmp \<Rightarrow> Inr (path0, tmp, [MakeTempDir tmp]))
               else Inr ([], path0, [])) of
           Inl err \<Rightarrow> (Some err, printed)
         | Inr (originalPath, path, made) \<Rightarrow>
             (case PlainClone w 0 path cloneOptions of
                None \<Rightarrow>
                  (case finishDownload w git originalPath path of
                     (res, evs) \<Rightarrow> (res, printed @ made @ [Clone path cloneOptions] @ evs))
              | Some err \<Rightarrow>
                  if revision = [] \<or> err \<noteq> NoMatchingRefSpecError
                  then (Some err, printed @ made @ [Clone path cloneOptions])
                  else
                    (let tagOptions =
                           cloneOptions\<lparr>ReferenceName := NewTagReferenceName revision\<rparr>;
                         evs1 = printed @ made @
                                [Clone path cloneOptions, Remove (pathJoin path ''.git''),
                                 Clone path tagOptions]
                     in case PlainClone w 1 path tagOptions of
                          Some err2 \<Rightarrow> (Some err2, evs1)
                        | None \<Rightarrow>
                            (case finishDownload w git originalPath path of
                               (res, evs) \<Rightarrow> (res, evs1 @ evs)))))"

subsection \<open>The interrupt handler of \<^verbatim>\<open>gitSubDir\<close> and \<^verbatim>\<open>cleanDir\<close>\<close>

text \<open>
  A filesystem for the \<^verbatim>\<open>filesystem.Filesystem\<close> interface that \<^verbatim>\<open>cleanDir\<close> and the
  handler call: \<open>nodes\<close> lists every file and directory by its path (the names from the
  root down) with its \<^verbatim>\<open>IsDir()\<close>; \<open>protected\<close> lists the paths that cannot be removed
  (a removal that the operating system refuses).
\<close>

record filesystem =
  nodes :: "(string list \<times> bool) list"
  protected :: "string list list"

definition fsExists :: "filesystem \<Rightarrow> string list \<Rightarrow> bool" where
  "fsExists fs p = (p \<in> fst ` set (nodes fs))"

text \<open>\<^verbatim>\<open>Readdir(0)\<close> of an open directory: the names of its entries.\<close>

definition fsEntries :: "filesystem \<Rightarrow> string list \<Rightarrow> string list" where
  "fsEntries fs p = map (last \<circ> fst) (filter (\<lambda>node. fst node \<noteq> [] \<and> butlast (fst node) = p) (nodes fs))"


text \<open>
  \<^verbatim>\<open>RemoveAll\<close> removes the path and everything below it, except the protected nodes that
  exist below it and the directories on the way to them; it returns an error if and only if
  something is left. A path that does not exist is no error.
\<close>

definition fsBlocked :: "filesystem \<Rightarrow> string list \<Rightarrow> string list \<Rightarrow> bool" where
  "fsBlocked fs p q =
     (\<exists>u \<in> set (protected fs). fsExists fs u \<and> prefix p u \<and> prefix q u)"

definition fsRemoveAll :: "string list \<Rightarrow> filesystem \<Rightarrow> error option \<times> filesystem" where
  "fsRemoveAll p fs =
     (let fs1 = fs\<lparr>nodes := filter (\<lambda>node. fsBlocked fs p (fst node) \<or> \<not> prefix p (fst node))
                                 (nodes fs)\<rparr>
      in if (\<exists>node \<in> set (nodes fs1). prefix p (fst node)) then (Some (RemoveFailed p), fs1)
         else (None, fs1))"



subsection \<open>The extraction of \<^verbatim>\<open>gitSubDir\<close>, one filesystem call at a time\<close>





text \<open>
  What the goroutine that runs \<^verbatim>\<open>gitSubDir\<close> has still to do, as the list of the
  filesystem calls to come, each with the source and the destination it is about: the
  \<^verbatim>\<open>Open\<close> and the \<^verbatim>\<open>Readdir\<close> of lines 148 and 159, the five calls of
  \<^verbatim>\<open>copyFileWithFs\<close> (\<^verbatim>\<open>Open\<close>, \<^verbatim>\<open>Create\<close>, \<^verbatim>\<open>io.Copy\<close>, \<^verbatim>\<open>Stat\<close>, \<^verbatim>\<open>Chmod\<close>), the
  three calls of \<^verbatim>\<open>copyDirWithFS\<close> (\<^verbatim>\<open>Stat\<close>, \<^verbatim>\<open>MkdirAll\<close>, \<^verbatim>\<open>ReadDir\<close>), and the
  \<^verbatim>\<open>RemoveAll\<close> of the staging path at line 188.
\<close>

datatype task =
    OpenSubDir "string list" "string list"
  | ReaddirSubDir "string list" "string list"
  | FileOpen "string list" "string list"
  | FileCreate "string list" "string list"
  | FileCopy "string list" "string list"
  | FileStat "string list" "string list"
  | FileChmod "string list" "string list"
  | DirStat "string list" "string list"
  | DirMkdirAll "string list" "string list"
  | DirReadDir "string list" "string list"
  | RemoveStaging "string list"



text \<open>\<^verbatim>\<open>gitSubDir\<close> when it is called: lines 146--188, with \<^verbatim>\<open>subDir\<close> as a path.\<close>

definition gitSubDirTasks :: "string list \<Rightarrow> string list \<Rightarrow> string list \<Rightarrow> task list" where
  "gitSubDirTasks srcPath destinationPath subDir =
     [OpenSubDir (srcPath @ subDir) destinationPath, RemoveStaging srcPath]"

text \<open>
  The goroutine of line 133 runs \<^verbatim>\<open>StartSignalWatcher\<close>: once the signal is received it
  calls the handler and then \<^verbatim>\<open>os.Exit(1)\<close>. Its states name the call it makes next:
  the \<^verbatim>\<open>Open\<close> and the \<^verbatim>\<open>Readdir\<close> of \<^verbatim>\<open>cleanDir\<close>, the loop of \<^verbatim>\<open>cleanDir\<close> with
  the entries still to visit, the \<^verbatim>\<open>RemoveAll\<close> of the staging path, and \<^verbatim>\<open>os.Exit\<close>.
\<close>

datatype hstate = HOpen | HReaddir | HLoop "string list" | HRemoveAll | HExit | HExited


text \<open>
  The process while the two goroutines run: what the copy has still to do, where the
  handler is, the filesystem they share, and the messages printed. \<open>written\<close> is not part
  of the program: it records the paths that the copy wrote since the handler read the
  destination.
\<close>

record process =
  pending :: "task list"
  handlerState :: hstate
  disk :: filesystem
  written :: "string list list"
  messages :: "error list"




section \<open>Quantities the properties are stated with\<close>

text \<open>
  The devfile that \<^verbatim>\<open>parseStackDevfile\<close> reads in a directory: the parsed file and the
  version read back from its metadata, when the file is found, read and decoded.
\<close>

definition devfileOf :: "env \<Rightarrow> path \<Rightarrow> (Devfile \<times> Version) option" where
  "devfileOf e devfileDirPath =
     (case devfileLocation e devfileDirPath of
        Inl err \<Rightarrow> None
      | Inr devfilePath \<Rightarrow>
          (case readDevfile e devfilePath of Inl err \<Rightarrow> None | Inr r \<Rightarrow> Some r))"

text \<open>
  The devfiles of the versions that the loop over a manifest's versions parses (those
  without \<^verbatim>\<open>Git\<close>), in the order of the loop.
\<close>

fun localDevfiles :: "env \<Rightarrow> path \<Rightarrow> Version list \<Rightarrow> (Devfile \<times> Version) list" where
  "localDevfiles e stackFolderPath [] = []"
| "localDevfiles e stackFolderPath (v # vs) =
     (if Version.Git v = None then
        (case devfileOf e (pathJoin stackFolderPath (Version.Version v)) of
           None \<Rightarrow> localDevfiles e stackFolderPath vs
         | Some d \<Rightarrow> d # localDevfiles e stackFolderPath vs)
      else localDevfiles e stackFolderPath vs)"

text \<open>What parsing one devfile does to the index component (lines 295--346).\<close>

definition mergeStep :: "Schema \<Rightarrow> Devfile \<times> Version \<Rightarrow> Schema" where
  "mergeStep ic d =
     (setCommonProperties (Meta (fst d)) ic)
       \<lparr>Schema.Tags := appendMissing (Schema.Tags ic) (Version.Tags (snd d)),
        Schema.Architectures :=
          appendMissing (Schema.Architectures ic) (Version.Architectures (snd d))\<rparr>"

text \<open>
  What the loop leaves at the index of a version: the version parsed from its directory
  when it has no \<^verbatim>\<open>Git\<close>, and the version itself otherwise.
\<close>

definition mergedVersion :: "env \<Rightarrow> path \<Rightarrow> string \<Rightarrow> Version \<Rightarrow> Version" where
  "mergedVersion e stackFolderPath stackName v =
     (if Version.Git v = None then
        (case parseStackDevfile e (pathJoin stackFolderPath (Version.Version v)) stackName True
                v zeroSchema of
           Inl err \<Rightarrow> v
         | Inr r \<Rightarrow> fst r)
      else v)"

text \<open>The first non-empty string of a list, and the empty string when there is none.\<close>

fun firstNonEmpty :: "string list \<Rightarrow> string" where
  "firstNonEmpty [] = []"
| "firstNonEmpty (x # xs) = (if x \<noteq> [] then x else firstNonEmpty xs)"

text \<open>A list without its repetitions: each element stays at its first occurrence.\<close>

fun firstOccurrences :: "string list \<Rightarrow> string list" where
  "firstOccurrences [] = []"
| "firstOccurrences (x # xs) = x # filter (\<lambda>y. y \<noteq> x) (firstOccurrences xs)"

text \<open>The link of a version under the key \<^verbatim>\<open>self\<close>.\<close>

definition selfLinkOf :: "Version \<Rightarrow> string option" where
  "selfLinkOf v = (case Version.Links v of None \<Rightarrow> None | Some m \<Rightarrow> m ''self'')"












section \<open>Example registries\<close>

subsection \<open>A legacy stack\<close>

text \<open>
  The registry \<^verbatim>\<open>r\<close> with one stack folder, \<^verbatim>\<open>r/stacks/go\<close>, that holds a
  \<^verbatim>\<open>devfile.yaml\<close> and no \<^verbatim>\<open>stack.yaml\<close>. The metadata declares no version. File
  contents are short tokens that the YAML functions of the environment decode.
\<close>

definition goMeta :: Schema where
  "goMeta = zeroSchema\<lparr>Schema.Name := ''go'', Schema.DisplayName := ''Go'',
              Schema.Tags := [''Go''], Schema.ProjectType := ''go'',
              Schema.Language := ''go''\<rparr>"

definition goDevfile :: Devfile where
  "goDevfile = \<lparr>Meta = goMeta, Devfile.StarterProjects = [StarterProject ''go-starter''],
                 Devfile.SchemaVersion = ''2.0.0''\<rparr>"

definition goVersionProp :: Version where
  "goVersionProp = zeroVersion\<lparr>Version.Tags := [''Go'']\<rparr>"

definition goMetadata :: DevfileMetadata where
  "goMetadata = \<lparr>DevfileMetadata.Name = ''go'', DevfileMetadata.DisplayName = ''Go'',
                  DevfileMetadata.Language = ''go'', DevfileMetadata.ProjectType = ''go''\<rparr>"

definition envGo :: env where
  "envGo =
     \<lparr>osStat = (\<lambda>p. if p = ''r/stacks/go/devfile.yaml'' then StatInfo False
                     else if p = ''r/stacks/go'' then StatInfo True
                     else StatNotExist),
      ioReadDir = (\<lambda>p. if p = ''r/stacks'' then Some [(''go'', True)]
                        else if p = ''r/stacks/go'' then Some [(''devfile.yaml'', False)]
                        else None),
      ioReadFile = (\<lambda>p. if p = ''r/stacks/go/devfile.yaml'' then Some ''go'' else None),
      yamlSchema = (\<lambda>b. None),
      yamlDevfile = (\<lambda>b. if b = ''go'' then Some goDevfile else None),
      yamlMarshal = (\<lambda>m. Some (Schema.Name m)),
      yamlVersion = (\<lambda>b. if b = ''go'' then Some goVersionProp else None),
      yamlExtraDevfileEntries = (\<lambda>b. None),
      ParseDevfileAndValidate =
        (\<lambda>p. if p = ''r/stacks/go/devfile.yaml'' then Some goMetadata else None),
      ParseAndValidate = (\<lambda>p. False)\<rparr>"


subsection \<open>A stack with a manifest\<close>

text \<open>
  The registry \<^verbatim>\<open>r\<close> with the stack folder \<^verbatim>\<open>r/stacks/js\<close>. Its \<^verbatim>\<open>stack.yaml\<close>
  names the stack \<^verbatim>\<open>nodejs\<close> and declares three versions: \<^verbatim>\<open>1\<close> (the default) and
  \<^verbatim>\<open>2\<close> have a directory each, the second with a hidden \<^verbatim>\<open>.devfile.yaml\<close>, and
  \<^verbatim>\<open>3\<close> has a remote source.
\<close>

definition jsRemote :: Git where
  "jsRemote = \<lparr>Url = ''https://example.com/js.git'', Git.RemoteName = ''origin'', SubDir = [],
                Revision = ''v3'', Remotes = []\<rparr>"

definition jsManifest :: Schema where
  "jsManifest =
     zeroSchema\<lparr>Schema.Name := ''nodejs'', Schema.DisplayName := ''Node.js'',
       Schema.Tags := [''Deprecated''], Schema.Icon := ''node.svg'',
       Versions := [zeroVersion\<lparr>Version.Version := ''1'', Default := True\<rparr>,
                    zeroVersion\<lparr>Version.Version := ''2''\<rparr>,
                    zeroVersion\<lparr>Version.Version := ''3'', Version.Git := Some jsRemote\<rparr>]\<rparr>"

definition js1Devfile :: Devfile where
  "js1Devfile =
     \<lparr>Meta = zeroSchema\<lparr>Schema.Name := ''nodejs-1'', Schema.Version := ''1'',
               Schema.DisplayName := ''Node 1'', Schema.Tags := [''Node'', ''Express''],
               Schema.Architectures := [''amd64''], Schema.ProjectType := ''nodejs'',
               Schema.Language := ''javascript''\<rparr>,
      Devfile.StarterProjects = [], Devfile.SchemaVersion = ''2.1.0''\<rparr>"

definition js1VersionProp :: Version where
  "js1VersionProp =
     zeroVersion\<lparr>Version.Version := ''1'', Version.Tags := [''Node'', ''Express''],
       Version.Architectures := [''amd64'']\<rparr>"

definition js2Devfile :: Devfile where
  "js2Devfile =
     \<lparr>Meta = zeroSchema\<lparr>Schema.Name := ''nodejs-2'', Schema.Version := ''2'',
               Schema.DisplayName := ''Node 2'', Schema.Tags := [''Express'', ''TS''],
               Schema.Architectures := [''amd64'', ''arm64''], Schema.ProjectType := ''nodejs'',
               Schema.Language := ''typescript'', Provider := ''Red Hat''\<rparr>,
      Devfile.StarterProjects = [StarterProject ''ts-starter''],
      Devfile.SchemaVersion = ''2.2.0''\<rparr>"

definition js2VersionProp :: Version where
  "js2VersionProp =
     zeroVersion\<lparr>Version.Version := ''2'', Version.Tags := [''Express'', ''TS''],
       Version.Architectures := [''amd64'', ''arm64'']\<rparr>"

definition jsMetadata :: DevfileMetadata where
  "jsMetadata = \<lparr>DevfileMetadata.Name = ''nodejs'', DevfileMetadata.DisplayName = ''Node'',
                  DevfileMetadata.Language = ''javascript'',
                  DevfileMetadata.ProjectType = ''nodejs''\<rparr>"

definition envJs :: env where
  "envJs =
     \<lparr>osStat = (\<lambda>p. if p = ''r/stacks/js/stack.yaml'' then StatInfo False
                     else if p = ''r/stacks/js/1'' then StatInfo True
                     else if p = ''r/stacks/js/2'' then StatInfo True
                     else if p = ''r/stacks/js/1/devfile.yaml'' then StatInfo False
                     else if p = ''r/stacks/js/2/.devfile.yaml'' then StatInfo False
                     else StatNotExist),
      ioReadDir = (\<lambda>p. if p = ''r/stacks'' then Some [(''README.md'', False), (''js'', True)]
                        else if p = ''r/stacks/js/1''
                          then Some [(''archive.tar'', False), (''devfile.yaml'', False)]
                        else if p = ''r/stacks/js/2'' then Some [(''.devfile.yaml'', False)]
                        else None),
      ioReadFile = (\<lambda>p. if p = ''r/stacks/js/stack.yaml'' then Some ''manifest''
                         else if p = ''r/stacks/js/1/devfile.yaml'' then Some ''js1''
                         else if p = ''r/stacks/js/2/.devfile.yaml'' then Some ''js2''
                         else None),
      yamlSchema = (\<lambda>b. if b = ''manifest'' then Some jsManifest else None),
      yamlDevfile = (\<lambda>b. if b = ''js1'' then Some js1Devfile
                          else if b = ''js2'' then Some js2Devfile else None),
      yamlMarshal = (\<lambda>m. Some (Schema.Name m)),
      yamlVersion = (\<lambda>b. if b = ''nodejs-1'' then Some js1VersionProp
                          else if b = ''nodejs-2'' then Some js2VersionProp else None),
      yamlExtraDevfileEntries = (\<lambda>b. None),
      ParseDevfileAndValidate =
        (\<lambda>p. if p = ''r/stacks/js/1/devfile.yaml'' then Some jsMetadata
              else if p = ''r/stacks/js/2/.devfile.yaml'' then Some jsMetadata else None),
      ParseAndValidate = (\<lambda>p. False)\<rparr>"

text \<open>
  The same registry when \<^verbatim>\<open>os.Stat\<close> of the folder of version \<^verbatim>\<open>2\<close> fails with an
  error other than not-exist (the entry is a symbolic link that loops, say).
\<close>

definition envJsBroken :: env where
  "envJsBroken =
     envJs\<lparr>osStat := (\<lambda>p. if p = ''r/stacks/js/2'' then StatFailed else osStat envJs p)\<rparr>"

subsection \<open>Supplemental entries\<close>





subsection \<open>Both devfile names in one directory\<close>

text \<open>
  The legacy stack with a \<^verbatim>\<open>.devfile.yaml\<close> next to its \<^verbatim>\<open>devfile.yaml\<close>, and the
  stack with a manifest with a \<^verbatim>\<open>devfile.yaml\<close> next to the \<^verbatim>\<open>.devfile.yaml\<close> of its
  version \<^verbatim>\<open>2\<close>.
\<close>

definition envGoBoth :: env where
  "envGoBoth =
     envGo\<lparr>osStat := (\<lambda>p. if p = ''r/stacks/go/.devfile.yaml'' then StatInfo False
                           else osStat envGo p)\<rparr>"

definition envJsBoth :: env where
  "envJsBoth =
     envJs\<lparr>osStat := (\<lambda>p. if p = ''r/stacks/js/2/devfile.yaml'' then StatInfo False
                           else osStat envJs p)\<rparr>"

subsection \<open>Entries that no check constrains\<close>




section \<open>Example downloads and filesystems\<close>

text \<open>
  \<^verbatim>\<open>plumbing.IsHash\<close> of go-git: the string has forty characters, all hexadecimal digits.
\<close>

definition isHexHash :: "string \<Rightarrow> bool" where
  "isHexHash s = (length s = 40 \<and> list_all (\<lambda>c. c \<in> set ''0123456789abcdefABCDEF'') s)"

text \<open>
  A remote repository with a default branch and no other reference: a clone succeeds when
  it names no reference, and fails with \<^verbatim>\<open>NoMatchingRefSpecError\<close> when it names one.
\<close>

definition worldDefaultBranch :: gitWorld where
  "worldDefaultBranch =
     \<lparr>IsHash = isHexHash, TempDir = Some ''/tmp/0'',
      PlainClone = (\<lambda>k p opts. if ReferenceName opts = [] then None
                                else Some NoMatchingRefSpecError),
      RemoveAllFails = (\<lambda>p. False),
      GitSubDir = (\<lambda>src dst sub. None)\<rparr>"

definition commitRevision :: string where
  "commitRevision = ''0123456789abcdef0123456789abcdef01234567''"

definition gitCommit :: Git where
  "gitCommit = \<lparr>Url = ''https://example.com/app.git'', Git.RemoteName = ''origin'',
                 SubDir = [], Revision = commitRevision, Remotes = []\<rparr>"

text \<open>
  A destination \<^verbatim>\<open>d\<close> that holds a \<^verbatim>\<open>devfile.yaml\<close>, and a staging directory \<^verbatim>\<open>t\<close>
  whose subdirectory \<^verbatim>\<open>sub\<close> is to be extracted: it holds the directory \<^verbatim>\<open>a\<close>, with
  the file \<^verbatim>\<open>f\<close> and the directory \<^verbatim>\<open>g\<close>, and the file \<^verbatim>\<open>b\<close>. In the second
  filesystem the copy of \<^verbatim>\<open>a/f\<close>, once made, cannot be removed.
\<close>

definition fsStaged :: filesystem where
  "fsStaged =
     \<lparr>nodes = [([''d''], True), ([''d'', ''devfile.yaml''], False), ([''t''], True),
               ([''t'', ''sub''], True), ([''t'', ''sub'', ''a''], True),
               ([''t'', ''sub'', ''a'', ''f''], False), ([''t'', ''sub'', ''a'', ''g''], True),
               ([''t'', ''sub'', ''a'', ''g'', ''h''], False), ([''t'', ''sub'', ''b''], False)],
      protected = []\<rparr>"




text \<open>The process when \<^verbatim>\<open>gitSubDir\<close> is called on a filesystem.\<close>

definition extraction ::
  "string list \<Rightarrow> string list \<Rightarrow> string list \<Rightarrow> filesystem \<Rightarrow> process" where
  "extraction srcPath destinationPath subDir fs =
     \<lparr>pending = gitSubDirTasks srcPath destinationPath subDir, handlerState = HOpen, disk = fs,
      written = [], messages = []\<rparr>"

text \<open>
  The two extractions from \<^verbatim>\<open>t/sub\<close> into \<^verbatim>\<open>d\<close>, and the schedule that lets the copy
  make its first ten calls: after them \<^verbatim>\<open>a\<close> and \<^verbatim>\<open>a/f\<close> are copied, and the copy
  of \<^verbatim>\<open>a/g\<close> comes next.
\<close>

definition staged :: process where
  "staged = extraction [''t''] [''d''] [''sub''] fsStaged"



section \<open>Properties\<close>

subsection \<open>Evaluation of the examples\<close>

lemmas eval_defs =
  parseStackDevfile_def devfileLocation_def devfileValidation_def readDevfile_def
  checkForRequiredMetadata_def fileExists_def pathJoin_def devfile_def devfileHidden_def
  stackYaml_def setCommonProperties_def populateVersion_def selfLink_def Let_def

lemmas go_defs =
  envGo_def goMeta_def goDevfile_def goVersionProp_def goMetadata_def zeroSchema_def
  zeroVersion_def

subsection \<open>The merge of one version\<close>

lemma inArray_iff: "inArray arr v \<longleftrightarrow> v \<in> set arr"
  by (induction arr) auto

lemma set_firstOccurrences: "set (firstOccurrences xs) = set xs"
  by (induction xs) auto

lemma distinct_firstOccurrences: "distinct (firstOccurrences xs)"
  by (induction xs) (auto simp: set_firstOccurrences)

lemma appendMissing_eq:
  "appendMissing arr items = arr @ filter (\<lambda>x. x \<notin> set arr) (firstOccurrences items)"
proof (induction items arbitrary: arr)
  case Nil
  show ?case by simp
next
  case (Cons item items)
  show ?case
  proof (cases "item \<in> set arr")
    case True
    have "filter (\<lambda>x. x \<notin> set arr) (filter (\<lambda>y. y \<noteq> item) (firstOccurrences items)) =
          filter (\<lambda>x. x \<notin> set arr) (firstOccurrences items)"
      using True by (auto intro: filter_cong)
    with True Cons show ?thesis by (simp add: inArray_iff)
  next
    case False
    have "filter (\<lambda>x. x \<notin> set (arr @ [item])) (firstOccurrences items) =
          filter (\<lambda>x. x \<notin> set arr) (filter (\<lambda>y. y \<noteq> item) (firstOccurrences items))"
      by (auto intro: filter_cong)
    with False Cons[of "arr @ [item]"] show ?thesis by (simp add: inArray_iff)
  qed
qed

lemma appendMissing_append:
  "appendMissing arr (xs @ ys) = appendMissing (appendMissing arr xs) ys"
  by (induction xs arbitrary: arr) auto

lemma set_appendMissing: "set (appendMissing arr items) = set arr \<union> set items"
  by (auto simp: appendMissing_eq set_firstOccurrences)

lemma distinct_appendMissing: "distinct arr \<Longrightarrow> distinct (appendMissing arr items)"
  by (auto simp: appendMissing_eq set_firstOccurrences distinct_firstOccurrences)

lemma setCommonProperties_frame:
  "Schema.Tags (setCommonProperties m ic) = Schema.Tags ic"
  "Schema.Architectures (setCommonProperties m ic) = Schema.Architectures ic"
  "Versions (setCommonProperties m ic) = Versions ic"
  "Schema.Links (setCommonProperties m ic) = Schema.Links ic"
  "Schema.Resources (setCommonProperties m ic) = Schema.Resources ic"
  "Schema.Git (setCommonProperties m ic) = Schema.Git ic"
  "Type (setCommonProperties m ic) = Type ic"
  by (simp_all add: setCommonProperties_def)

lemma setCommonProperties_scalars:
  "Schema.ProjectType (setCommonProperties m ic) =
     (if Schema.ProjectType ic = [] then Schema.ProjectType m else Schema.ProjectType ic)"
  "Schema.Language (setCommonProperties m ic) =
     (if Schema.Language ic = [] then Schema.Language m else Schema.Language ic)"
  "Provider (setCommonProperties m ic) =
     (if Provider ic = [] then Provider m else Provider ic)"
  "SupportUrl (setCommonProperties m ic) =
     (if SupportUrl ic = [] then SupportUrl m else SupportUrl ic)"
  "Schema.Name (setCommonProperties m ic) =
     (if Schema.Name ic = [] then Schema.Name m else Schema.Name ic)"
  "Schema.DisplayName (setCommonProperties m ic) =
     (if Schema.DisplayName ic = [] then Schema.DisplayName m else Schema.DisplayName ic)"
  "Schema.Description (setCommonProperties m ic) =
     (if Schema.Description ic = [] then Schema.Description m else Schema.Description ic)"
  "Schema.Icon (setCommonProperties m ic) =
     (if Schema.Icon ic = [] then Schema.Icon m else Schema.Icon ic)"
  by (simp_all add: setCommonProperties_def)

lemma populateVersion_fields:
  "Default (populateVersion n dvf vp v) = Default v"
  "Version.Version (populateVersion n dvf vp v) = Version.Version vp"
  "Version.Tags (populateVersion n dvf vp v) = Version.Tags vp"
  "Version.Architectures (populateVersion n dvf vp v) = Version.Architectures vp"
  "Version.Resources (populateVersion n dvf vp v) = Version.Resources vp"
  "Version.Git (populateVersion n dvf vp v) = Version.Git vp"
  "Version.Links (populateVersion n dvf vp v) =
     Some ((case Version.Links vp of None \<Rightarrow> Map.empty | Some m \<Rightarrow> m)
             (''self'' \<mapsto> selfLink n (Version.Version vp)))"
  by (simp_all add: populateVersion_def Let_def)

lemma parseStackDevfile_Inr:
  assumes "parseStackDevfile e d n f v ic = Inr (v1, ic1)"
  shows "\<exists>dvf vp files.
           devfileOf e d = Some (dvf, vp) \<and> ioReadDir e d = Some files \<and>
           v1 = (populateVersion n dvf vp v)
                  \<lparr>Version.Resources := Version.Resources vp @
                     map fst (filter (\<lambda>stackFile. \<not> snd stackFile) files)\<rparr> \<and>
           ic1 = mergeStep ic (dvf, vp)"
  using assms unfolding parseStackDevfile_def Let_def devfileOf_def mergeStep_def
  by (auto split: sum.splits option.splits prod.splits
           simp: populateVersion_fields setCommonProperties_frame)

lemma parseStackDevfile_version_indep:
  assumes "parseStackDevfile e d n f v ic = Inr (v1, ic1)"
  shows "\<exists>ic2. parseStackDevfile e d n True v ic0 = Inr (v1, ic2)"
  using assms unfolding parseStackDevfile_def Let_def devfileValidation_def
  by (auto split: sum.splits option.splits prod.splits if_splits)

lemma mergeStep_Versions: "Versions (mergeStep ic d) = Versions ic"
  by (simp add: mergeStep_def setCommonProperties_frame)

lemma mergeStep_Versions_update:
  "mergeStep (c\<lparr>Versions := X\<rparr>) d = (mergeStep c d)\<lparr>Versions := X\<rparr>"
  by (simp add: mergeStep_def setCommonProperties_def split del: if_split cong: if_cong)

lemma versionsLoop_fold:
  assumes "versionsLoop e fp n f i vs ic = Inr ic1"
  shows "ic1 = (foldl mergeStep ic (localDevfiles e fp vs))\<lparr>Versions := Versions ic1\<rparr>"
  using assms
proof (induction vs arbitrary: i ic)
  case Nil
  then show ?case by simp
next
  case (Cons v vs)
  show ?case
  proof (cases "Version.Git v = None")
    case False
    with Cons show ?thesis by auto
  next
    case True
    with Cons.prems obtain v1 ic2 where
      p: "parseStackDevfile e (pathJoin fp (Version.Version v)) n f v ic = Inr (v1, ic2)" and
      l: "versionsLoop e fp n f (Suc i) vs (ic2\<lparr>Versions := (Versions ic2)[i := v1]\<rparr>) = Inr ic1"
      by (auto split: sum.splits)
    from parseStackDevfile_Inr[OF p] obtain dvf vp where
      d: "devfileOf e (pathJoin fp (Version.Version v)) = Some (dvf, vp)" and
      m: "ic2 = mergeStep ic (dvf, vp)" by blast
    have fold_upd: "foldl mergeStep (c\<lparr>Versions := X\<rparr>) ds\<lparr>Versions := Y\<rparr> =
          foldl mergeStep c ds\<lparr>Versions := Y\<rparr>" for c X Y ds
      by (induction ds arbitrary: c X) (simp_all add: mergeStep_Versions_update)
    from Cons.IH[OF l] True d m show ?thesis
      by (simp add: fold_upd)
  qed
qed


lemma foldl_mergeStep_Tags:
  "Schema.Tags (foldl mergeStep ic ds) =
     appendMissing (Schema.Tags ic) (concat (map (Version.Tags \<circ> snd) ds))"
  by (induction ds arbitrary: ic) (simp_all add: mergeStep_def appendMissing_append)

lemma foldl_mergeStep_Architectures:
  "Schema.Architectures (foldl mergeStep ic ds) =
     appendMissing (Schema.Architectures ic) (concat (map (Version.Architectures \<circ> snd) ds))"
  by (induction ds arbitrary: ic) (simp_all add: mergeStep_def appendMissing_append)

lemma foldl_mergeStep_Name:
  "Schema.Name (foldl mergeStep ic ds) =
     firstNonEmpty (Schema.Name ic # map (Schema.Name \<circ> Meta \<circ> fst) ds)"
  by (induction ds arbitrary: ic) (simp_all add: mergeStep_def setCommonProperties_scalars)

lemma foldl_mergeStep_frame:
  "Schema.Links (foldl mergeStep ic ds) = Schema.Links ic \<and>
   Schema.Resources (foldl mergeStep ic ds) = Schema.Resources ic \<and>
   Versions (foldl mergeStep ic ds) = Versions ic"
  by (induction ds arbitrary: ic) (simp_all add: mergeStep_def setCommonProperties_frame)

lemma versionsLoop_Versions:
  assumes "versionsLoop e fp n f i vs ic = Inr ic1" and "drop i (Versions ic) = vs"
  shows "Versions ic1 = take i (Versions ic) @ map (mergedVersion e fp n) vs"
  using assms
proof (induction vs arbitrary: i ic)
  case Nil
  then show ?case by simp
next
  case (Cons v vs)
  have i: "i < length (Versions ic)"
  proof (rule ccontr)
    assume "\<not> i < length (Versions ic)"
    then have "drop i (Versions ic) = []" by simp
    with Cons.prems(2) show False by simp
  qed
  from Cons_nth_drop_Suc[OF i] Cons.prems(2)
  have vi: "Versions ic ! i = v" and dr: "drop (Suc i) (Versions ic) = vs" by simp_all
  show ?case
  proof (cases "Version.Git v = None")
    case False
    with Cons.prems have "versionsLoop e fp n f (Suc i) vs ic = Inr ic1" by simp
    from Cons.IH[OF this dr] False i vi show ?thesis
      by (auto simp: take_Suc_conv_app_nth mergedVersion_def)
  next
    case True
    with Cons.prems obtain v1 ic2 where
      p: "parseStackDevfile e (pathJoin fp (Version.Version v)) n f v ic = Inr (v1, ic2)" and
      l: "versionsLoop e fp n f (Suc i) vs (ic2\<lparr>Versions := (Versions ic2)[i := v1]\<rparr>) = Inr ic1"
      by (auto split: sum.splits)
    from parseStackDevfile_Inr[OF p] have vs2: "Versions ic2 = Versions ic"
      by (auto simp: mergeStep_Versions)
    from parseStackDevfile_version_indep[OF p, of zeroSchema]
    have mv: "mergedVersion e fp n v = v1" using True by (auto simp: mergedVersion_def)
    have "drop (Suc i) (Versions (ic2\<lparr>Versions := (Versions ic2)[i := v1]\<rparr>)) = vs"
      using dr vs2 by simp
    from Cons.IH[OF l this] i vs2 mv show ?thesis
      by (simp add: take_Suc_conv_app_nth)
  qed
qed


lemmas js_defs =
  envJs_def jsManifest_def jsRemote_def js1Devfile_def js1VersionProp_def js2Devfile_def
  js2VersionProp_def jsMetadata_def zeroSchema_def zeroVersion_def

lemmas folder_defs =
  parseStackFolder_def parseStackInfo_def validateStackInfo_def dirExists_def

subsection \<open>The stack folders\<close>

lemma parseStackFolder_manifest:
  assumes "parseStackFolder e sd force n = Inr c"
    and "fileExists e (pathJoin (pathJoin sd n) stackYaml)"
  shows "\<exists>m ic1. parseStackInfo e (pathJoin (pathJoin sd n) stackYaml) = Inr m \<and>
           (force \<or> validateStackInfo e m (pathJoin sd n) = Inr []) \<and>
           versionsLoop e (pathJoin sd n) n force 0 (Versions m) m = Inr ic1 \<and>
           c = ic1\<lparr>Type := StackDevfileType\<rparr>"
  using assms unfolding parseStackFolder_def Let_def
  by (auto split: sum.splits list.splits if_splits)

lemma parseStackFolder_legacy:
  assumes "parseStackFolder e sd force n = Inr c"
    and "\<not> fileExists e (pathJoin (pathJoin sd n) stackYaml)"
  shows "\<exists>v1 ic1. parseStackDevfile e (pathJoin sd n) n force zeroVersion zeroSchema = Inr (v1, ic1) \<and>
           c = ic1\<lparr>Versions := Versions ic1 @ [v1\<lparr>Default := True\<rparr>], Type := StackDevfileType\<rparr>"
  using assms unfolding parseStackFolder_def Let_def
  by (auto split: sum.splits list.splits if_splits)

lemma versionsLoop_each:
  assumes "versionsLoop e fp n f i vs ic = Inr ic1" and "v \<in> set vs" and "Version.Git v = None"
  shows "\<exists>ic0 v1 ic2. parseStackDevfile e (pathJoin fp (Version.Version v)) n f v ic0 = Inr (v1, ic2)"
  using assms
proof (induction vs arbitrary: i ic)
  case Nil
  then show ?case by simp
next
  case (Cons a vs)
  show ?case
  proof (cases "Version.Git a = None")
    case False
    with Cons.prems have "versionsLoop e fp n f (Suc i) vs ic = Inr ic1" and "v \<in> set vs"
      by auto
    with Cons.IH Cons.prems(3) show ?thesis by blast
  next
    case True
    with Cons.prems(1) obtain v1 ic2 where
      p: "parseStackDevfile e (pathJoin fp (Version.Version a)) n f a ic = Inr (v1, ic2)" and
      l: "versionsLoop e fp n f (Suc i) vs (ic2\<lparr>Versions := (Versions ic2)[i := v1]\<rparr>) = Inr ic1"
      by (auto split: sum.splits)
    show ?thesis
    proof (cases "v = a")
      case True
      with p show ?thesis by blast
    next
      case False
      with Cons.prems(2) have "v \<in> set vs" by simp
      with Cons.IH[OF l] Cons.prems(3) show ?thesis by blast
    qed
  qed
qed

lemma mergedVersion_parsed:
  assumes "parseStackDevfile e (pathJoin fp (Version.Version v)) n f v ic = Inr (v1, ic1)"
    and "Version.Git v = None"
  shows "mergedVersion e fp n v = v1"
  using parseStackDevfile_version_indep[OF assms(1), of zeroSchema] assms(2)
  by (auto simp: mergedVersion_def)

lemma parsed_version_link:
  assumes "parseStackDevfile e d n f v ic = Inr (v1, ic1)"
  shows "selfLinkOf v1 = Some (''devfile-catalog/'' @ n @ '':'' @ Version.Version v1) \<and>
         (\<exists>dvf vp. devfileOf e d = Some (dvf, vp) \<and> Version.Version v1 = Version.Version vp)"
  using parseStackDevfile_Inr[OF assms]
  by (auto simp: populateVersion_fields selfLinkOf_def selfLink_def)

text \<open>
  C9, as amended. For every version that is parsed, the link under \<^verbatim>\<open>self\<close> is
  \<^verbatim>\<open>devfile-catalog/<stack-name>:<version>\<close>, where the stack name is the name of the
  stack's folder and the version is the one read back from the devfile's metadata, which
  is also the version of the entry. No other identifier is put in its place: a devfile
  that declares no version gives a link that ends in a colon.
\<close>

theorem selfLink_of_versions:
  assumes "parseStackFolder e sd force n = Inr c"
  shows "if fileExists e (pathJoin (pathJoin sd n) stackYaml)
         then (\<exists>m. parseStackInfo e (pathJoin (pathJoin sd n) stackYaml) = Inr m \<and>
                 length (Versions c) = length (Versions m) \<and>
                 (\<forall>i < length (Versions m). Version.Git (Versions m ! i) = None \<longrightarrow>
                    selfLinkOf (Versions c ! i) =
                      Some (''devfile-catalog/'' @ n @ '':'' @ Version.Version (Versions c ! i)) \<and>
                    (\<exists>dvf vp. devfileOf e (pathJoin (pathJoin sd n)
                                 (Version.Version (Versions m ! i))) = Some (dvf, vp) \<and>
                       Version.Version (Versions c ! i) = Version.Version vp)))
         else (\<exists>v dvf vp. Versions c = [v] \<and>
                 selfLinkOf v = Some (''devfile-catalog/'' @ n @ '':'' @ Version.Version v) \<and>
                 devfileOf e (pathJoin sd n) = Some (dvf, vp) \<and>
                 Version.Version v = Version.Version vp)"
proof (cases "fileExists e (pathJoin (pathJoin sd n) stackYaml)")
  case True
  from parseStackFolder_manifest[OF assms True] obtain m ic1 where
    m: "parseStackInfo e (pathJoin (pathJoin sd n) stackYaml) = Inr m" and
    l: "versionsLoop e (pathJoin sd n) n force 0 (Versions m) m = Inr ic1" and
    c: "c = ic1\<lparr>Type := StackDevfileType\<rparr>" by blast
  from versionsLoop_Versions[OF l] have vs:
    "Versions c = map (mergedVersion e (pathJoin sd n) n) (Versions m)"
    by (simp add: c)
  have "selfLinkOf (Versions c ! i) =
          Some (''devfile-catalog/'' @ n @ '':'' @ Version.Version (Versions c ! i)) \<and>
        (\<exists>dvf vp. devfileOf e (pathJoin (pathJoin sd n)
                     (Version.Version (Versions m ! i))) = Some (dvf, vp) \<and>
           Version.Version (Versions c ! i) = Version.Version vp)"
    if i: "i < length (Versions m)" and g: "Version.Git (Versions m ! i) = None" for i
  proof -
    from i have "Versions m ! i \<in> set (Versions m)" by simp
    from versionsLoop_each[OF l this g] obtain ic0 v1 ic2 where
      p: "parseStackDevfile e (pathJoin (pathJoin sd n) (Version.Version (Versions m ! i))) n
            force (Versions m ! i) ic0 = Inr (v1, ic2)" by blast
    from mergedVersion_parsed[OF p g] vs i have "Versions c ! i = v1" by simp
    with parsed_version_link[OF p] show ?thesis by simp
  qed
  with m vs True show ?thesis by auto
next
  case False
  from parseStackFolder_legacy[OF assms False] obtain v1 ic1 where
    p: "parseStackDevfile e (pathJoin sd n) n force zeroVersion zeroSchema = Inr (v1, ic1)" and
    c: "c = ic1\<lparr>Versions := Versions ic1 @ [v1\<lparr>Default := True\<rparr>], Type := StackDevfileType\<rparr>"
    by blast
  from parseStackDevfile_Inr[OF p] have "Versions ic1 = []"
    by (auto simp: mergeStep_Versions zeroSchema_def)
  with c have "Versions c = [v1\<lparr>Default := True\<rparr>]" by simp
  with parsed_version_link[OF p] False show ?thesis by (auto simp: selfLinkOf_def)
qed

theorem selfLink_of_versions_witness:
  "map_sum id (map selfLinkOf \<circ> Versions) (parseStackFolder envJs ''r/stacks'' False ''js'') =
     Inr [Some ''devfile-catalog/js:1'', Some ''devfile-catalog/js:2'', None] \<and>
   map_sum id (map Version.Version \<circ> Versions) (parseStackFolder envJs ''r/stacks'' False ''js'') =
     Inr [''1'', ''2'', ''3'']"
proof -
  obtain c where c: "parseStackFolder envJs ''r/stacks'' False ''js'' = Inr c"
    by (simp add: folder_defs eval_defs js_defs inArray_iff)
  have f: "fileExists envJs (pathJoin (pathJoin ''r/stacks'' ''js'') stackYaml)"
    by (simp add: eval_defs js_defs)
  have m: "parseStackInfo envJs (pathJoin (pathJoin ''r/stacks'' ''js'') stackYaml) = Inr jsManifest"
    by (simp add: folder_defs eval_defs envJs_def)
  have "map_sum id (map Version.Version \<circ> Versions)
          (parseStackFolder envJs ''r/stacks'' False ''js'') = Inr [''1'', ''2'', ''3'']"
    by (simp add: folder_defs eval_defs js_defs inArray_iff)
  with c have vs: "map Version.Version (Versions c) = [''1'', ''2'', ''3'']" by simp
  from selfLink_of_versions[OF c] f m have
    len: "length (Versions c) = 3" and
    l: "\<forall>i<3. Version.Git (Versions jsManifest ! i) = None \<longrightarrow>
          selfLinkOf (Versions c ! i) =
            Some (''devfile-catalog/'' @ ''js'' @ '':'' @ Version.Version (Versions c ! i))"
    by (auto simp: jsManifest_def zeroSchema_def)
  from l have "selfLinkOf (Versions c ! 0) = Some (''devfile-catalog/js:'' @ Version.Version (Versions c ! 0))"
    and "selfLinkOf (Versions c ! 1) = Some (''devfile-catalog/js:'' @ Version.Version (Versions c ! 1))"
    by (simp_all add: jsManifest_def zeroSchema_def zeroVersion_def)
  moreover have "map_sum id (selfLinkOf \<circ> last \<circ> Versions)
          (parseStackFolder envJs ''r/stacks'' False ''js'') = Inr None"
    by (simp add: folder_defs eval_defs js_defs inArray_iff selfLinkOf_def)
  with c have "selfLinkOf (last (Versions c)) = None" by simp
  moreover from len obtain a b d where "Versions c = [a, b, d]"
    by (auto simp: length_Suc_conv numeral_3_eq_3)
  ultimately show ?thesis using c vs by auto
qed

text \<open>
  C9 as stated fails: in the legacy layout, with no version declared in the metadata, the
  link is not \<^verbatim>\<open>devfile-catalog/go:latest\<close>.
\<close>

theorem selfLink_latest_counterexample:
  "map_sum id (map selfLinkOf \<circ> Versions) (parseStackFolder envGo ''r/stacks'' False ''go'') =
     Inr [Some ''devfile-catalog/go:'']"
  by (simp add: folder_defs eval_defs go_defs inArray_iff selfLinkOf_def)

subsection \<open>The entry-level fields of a stack with a manifest\<close>

lemma foldl_mergeStep_scalars:
  "Schema.ProjectType (foldl mergeStep ic ds) =
     firstNonEmpty (Schema.ProjectType ic # map (Schema.ProjectType \<circ> Meta \<circ> fst) ds)"
  "Schema.Language (foldl mergeStep ic ds) =
     firstNonEmpty (Schema.Language ic # map (Schema.Language \<circ> Meta \<circ> fst) ds)"
  "Provider (foldl mergeStep ic ds) =
     firstNonEmpty (Provider ic # map (Provider \<circ> Meta \<circ> fst) ds)"
  "SupportUrl (foldl mergeStep ic ds) =
     firstNonEmpty (SupportUrl ic # map (SupportUrl \<circ> Meta \<circ> fst) ds)"
  "Schema.DisplayName (foldl mergeStep ic ds) =
     firstNonEmpty (Schema.DisplayName ic # map (Schema.DisplayName \<circ> Meta \<circ> fst) ds)"
  "Schema.Description (foldl mergeStep ic ds) =
     firstNonEmpty (Schema.Description ic # map (Schema.Description \<circ> Meta \<circ> fst) ds)"
  "Schema.Icon (foldl mergeStep ic ds) =
     firstNonEmpty (Schema.Icon ic # map (Schema.Icon \<circ> Meta \<circ> fst) ds)"
  by (induction ds arbitrary: ic; simp add: mergeStep_def setCommonProperties_scalars)+

lemma versionsLoop_field:
  assumes "versionsLoop e fp n f i vs ic = Inr ic1"
  shows "Schema.Name ic1 = Schema.Name (foldl mergeStep ic (localDevfiles e fp vs))"
    and "Schema.ProjectType ic1 = Schema.ProjectType (foldl mergeStep ic (localDevfiles e fp vs))"
    and "Schema.Language ic1 = Schema.Language (foldl mergeStep ic (localDevfiles e fp vs))"
    and "Provider ic1 = Provider (foldl mergeStep ic (localDevfiles e fp vs))"
    and "SupportUrl ic1 = SupportUrl (foldl mergeStep ic (localDevfiles e fp vs))"
    and "Schema.DisplayName ic1 = Schema.DisplayName (foldl mergeStep ic (localDevfiles e fp vs))"
    and "Schema.Description ic1 = Schema.Description (foldl mergeStep ic (localDevfiles e fp vs))"
    and "Schema.Icon ic1 = Schema.Icon (foldl mergeStep ic (localDevfiles e fp vs))"
    and "Schema.Tags ic1 = Schema.Tags (foldl mergeStep ic (localDevfiles e fp vs))"
    and "Schema.Architectures ic1 =
           Schema.Architectures (foldl mergeStep ic (localDevfiles e fp vs))"
    and "Schema.Links ic1 = Schema.Links (foldl mergeStep ic (localDevfiles e fp vs))"
    and "Schema.Resources ic1 = Schema.Resources (foldl mergeStep ic (localDevfiles e fp vs))"
  by (subst versionsLoop_fold[OF assms], simp)+

text \<open>
  C3, as amended. For a stack with a manifest, each of the eight entry-level fields is
  the first non-empty value in this order: the value the manifest gives, then the values of
  the metadata of the versions parsed, in the order of the manifest. A value that is set is
  never replaced.
\<close>

theorem entry_scalars_first_wins:
  assumes "parseStackFolder e sd force n = Inr c"
    and "fileExists e (pathJoin (pathJoin sd n) stackYaml)"
    and "parseStackInfo e (pathJoin (pathJoin sd n) stackYaml) = Inr m"
  shows "(let ds = localDevfiles e (pathJoin sd n) (Versions m) in
          Schema.ProjectType c =
            firstNonEmpty (Schema.ProjectType m # map (Schema.ProjectType \<circ> Meta \<circ> fst) ds) \<and>
          Schema.Language c =
            firstNonEmpty (Schema.Language m # map (Schema.Language \<circ> Meta \<circ> fst) ds) \<and>
          Provider c = firstNonEmpty (Provider m # map (Provider \<circ> Meta \<circ> fst) ds) \<and>
          SupportUrl c = firstNonEmpty (SupportUrl m # map (SupportUrl \<circ> Meta \<circ> fst) ds) \<and>
          Schema.Name c = firstNonEmpty (Schema.Name m # map (Schema.Name \<circ> Meta \<circ> fst) ds) \<and>
          Schema.DisplayName c =
            firstNonEmpty (Schema.DisplayName m # map (Schema.DisplayName \<circ> Meta \<circ> fst) ds) \<and>
          Schema.Description c =
            firstNonEmpty (Schema.Description m # map (Schema.Description \<circ> Meta \<circ> fst) ds) \<and>
          Schema.Icon c = firstNonEmpty (Schema.Icon m # map (Schema.Icon \<circ> Meta \<circ> fst) ds))"
proof -
  from parseStackFolder_manifest[OF assms(1,2)] assms(3) obtain ic1 where
    l: "versionsLoop e (pathJoin sd n) n force 0 (Versions m) m = Inr ic1" and
    c: "c = ic1\<lparr>Type := StackDevfileType\<rparr>" by auto
  show ?thesis
    unfolding Let_def c
    by (simp add: versionsLoop_field[OF l] foldl_mergeStep_scalars foldl_mergeStep_Name
          del: firstNonEmpty.simps)
qed

theorem entry_scalars_first_wins_witness:
  "map_sum id Schema.Name (parseStackFolder envJs ''r/stacks'' False ''js'') = Inr ''nodejs'' \<and>
   map_sum id Schema.Language (parseStackFolder envJs ''r/stacks'' False ''js'') = Inr ''javascript'' \<and>
   map_sum id Provider (parseStackFolder envJs ''r/stacks'' False ''js'') = Inr ''Red Hat''"
proof -
  obtain c where c: "parseStackFolder envJs ''r/stacks'' False ''js'' = Inr c"
    by (simp add: folder_defs eval_defs js_defs inArray_iff)
  have f: "fileExists envJs (pathJoin (pathJoin ''r/stacks'' ''js'') stackYaml)"
    by (simp add: eval_defs js_defs)
  have m: "parseStackInfo envJs (pathJoin (pathJoin ''r/stacks'' ''js'') stackYaml) = Inr jsManifest"
    by (simp add: folder_defs eval_defs envJs_def)
  have d: "localDevfiles envJs (pathJoin ''r/stacks'' ''js'') (Versions jsManifest) =
             [(js1Devfile, js1VersionProp), (js2Devfile, js2VersionProp)]"
    by (simp add: devfileOf_def eval_defs envJs_def jsManifest_def js1Devfile_def js2Devfile_def
          zeroSchema_def zeroVersion_def)
  from entry_scalars_first_wins[OF c f m]
  have "Schema.Name c = ''nodejs'' \<and> Schema.Language c = ''javascript'' \<and> Provider c = ''Red Hat''"
    unfolding Let_def d
    by (simp add: jsManifest_def js1Devfile_def js2Devfile_def zeroSchema_def)
  with c show ?thesis by simp
qed

text \<open>
  C3 as stated fails: the entry takes the name the manifest gives, \<^verbatim>\<open>nodejs\<close>, although
  the first version parsed has the non-empty name \<^verbatim>\<open>nodejs-1\<close> in its metadata.
\<close>

theorem entry_scalars_counterexample:
  "map_sum id Schema.Name (parseStackFolder envJs ''r/stacks'' False ''js'') = Inr ''nodejs'' \<and>
   firstNonEmpty (map (Schema.Name \<circ> Meta \<circ> fst)
     (localDevfiles envJs ''r/stacks/js'' (Versions jsManifest))) = ''nodejs-1''"
  by (simp add: folder_defs devfileOf_def eval_defs js_defs inArray_iff)

subsection \<open>Tags and architectures\<close>

lemma set_localDevfiles:
  "set (localDevfiles e fp vs) =
     {d. \<exists>v \<in> set vs. Version.Git v = None \<and>
           devfileOf e (pathJoin fp (Version.Version v)) = Some d}"
  by (induction vs) (auto split: option.splits)

lemma versionsLoop_set_Tags:
  assumes "versionsLoop e fp n f i vs ic = Inr ic1"
  shows "set (Schema.Tags ic1) =
           set (Schema.Tags ic) \<union> (\<Union>d \<in> set (localDevfiles e fp vs). set (Version.Tags (snd d)))"
    and "set (Schema.Architectures ic1) =
           set (Schema.Architectures ic) \<union>
           (\<Union>d \<in> set (localDevfiles e fp vs). set (Version.Architectures (snd d)))"
  by (simp_all add: versionsLoop_field[OF assms] foldl_mergeStep_Tags
        foldl_mergeStep_Architectures set_appendMissing)

text \<open>
  C4, as amended. After the versions of a stack are parsed, the entry-level tags are the
  tags the entry had before (those of the manifest; none in the legacy layout) followed by
  the tags of the versions parsed that were not among them, each once, in the order of
  first appearance. As a set they are the union of the two; they are free of duplicates
  when the manifest's own list is; and the set does not depend on the order in which the
  versions are run through. The same holds for the architectures.
\<close>

theorem entry_tags_union:
  assumes "parseStackFolder e sd force n = Inr c"
  shows "if fileExists e (pathJoin (pathJoin sd n) stackYaml)
         then (\<exists>m. parseStackInfo e (pathJoin (pathJoin sd n) stackYaml) = Inr m \<and>
            (let ds = localDevfiles e (pathJoin sd n) (Versions m);
                 tags = concat (map (Version.Tags \<circ> snd) ds);
                 archs = concat (map (Version.Architectures \<circ> snd) ds)
             in Schema.Tags c =
                  Schema.Tags m @ filter (\<lambda>t. t \<notin> set (Schema.Tags m)) (firstOccurrences tags) \<and>
                set (Schema.Tags c) = set (Schema.Tags m) \<union> set tags \<and>
                (distinct (Schema.Tags m) \<longrightarrow> distinct (Schema.Tags c)) \<and>
                Schema.Architectures c =
                  Schema.Architectures m @
                  filter (\<lambda>a. a \<notin> set (Schema.Architectures m)) (firstOccurrences archs) \<and>
                set (Schema.Architectures c) = set (Schema.Architectures m) \<union> set archs \<and>
                (distinct (Schema.Architectures m) \<longrightarrow> distinct (Schema.Architectures c)) \<and>
                (\<forall>vs ic. set vs = set (Versions m) \<and>
                     versionsLoop e (pathJoin sd n) n force 0 vs m = Inr ic \<longrightarrow>
                   set (Schema.Tags ic) = set (Schema.Tags c) \<and>
                   set (Schema.Architectures ic) = set (Schema.Architectures c))))
         else (\<exists>dvf vp. devfileOf e (pathJoin sd n) = Some (dvf, vp) \<and>
                 Schema.Tags c = firstOccurrences (Version.Tags vp) \<and>
                 Schema.Architectures c = firstOccurrences (Version.Architectures vp))"
proof (cases "fileExists e (pathJoin (pathJoin sd n) stackYaml)")
  case True
  from parseStackFolder_manifest[OF assms True] obtain m ic1 where
    m: "parseStackInfo e (pathJoin (pathJoin sd n) stackYaml) = Inr m" and
    l: "versionsLoop e (pathJoin sd n) n force 0 (Versions m) m = Inr ic1" and
    c: "c = ic1\<lparr>Type := StackDevfileType\<rparr>" by blast
  let ?ds = "localDevfiles e (pathJoin sd n) (Versions m)"
  have t: "Schema.Tags c = appendMissing (Schema.Tags m) (concat (map (Version.Tags \<circ> snd) ?ds))"
    and a: "Schema.Architectures c =
              appendMissing (Schema.Architectures m) (concat (map (Version.Architectures \<circ> snd) ?ds))"
    by (simp_all add: c versionsLoop_field[OF l] foldl_mergeStep_Tags foldl_mergeStep_Architectures)
  have perm: "set (Schema.Tags ic) = set (Schema.Tags c) \<and>
              set (Schema.Architectures ic) = set (Schema.Architectures c)"
    if "set vs = set (Versions m)" and "versionsLoop e (pathJoin sd n) n force 0 vs m = Inr ic"
    for vs ic
  proof -
    from that(1) have "set (localDevfiles e (pathJoin sd n) vs) = set ?ds"
      by (simp add: set_localDevfiles)
    with versionsLoop_set_Tags[OF that(2)] versionsLoop_set_Tags[OF l] c
    show ?thesis by simp
  qed
  have T1: "Schema.Tags c = Schema.Tags m @
          filter (\<lambda>t. t \<notin> set (Schema.Tags m))
            (firstOccurrences (concat (map (Version.Tags \<circ> snd) ?ds)))"
    and T2: "set (Schema.Tags c) =
               set (Schema.Tags m) \<union> set (concat (map (Version.Tags \<circ> snd) ?ds))"
    and T3: "distinct (Schema.Tags m) \<longrightarrow> distinct (Schema.Tags c)"
    unfolding t
    by (rule appendMissing_eq, rule set_appendMissing, rule impI, erule distinct_appendMissing)
  have A1: "Schema.Architectures c = Schema.Architectures m @
          filter (\<lambda>t. t \<notin> set (Schema.Architectures m))
            (firstOccurrences (concat (map (Version.Architectures \<circ> snd) ?ds)))"
    and A2: "set (Schema.Architectures c) =
           set (Schema.Architectures m) \<union> set (concat (map (Version.Architectures \<circ> snd) ?ds))"
    and A3: "distinct (Schema.Architectures m) \<longrightarrow> distinct (Schema.Architectures c)"
    unfolding a
    by (rule appendMissing_eq, rule set_appendMissing, rule impI, erule distinct_appendMissing)
  have P: "\<forall>vs ic. set vs = set (Versions m) \<and>
             versionsLoop e (pathJoin sd n) n force 0 vs m = Inr ic \<longrightarrow>
           set (Schema.Tags ic) = set (Schema.Tags c) \<and>
           set (Schema.Architectures ic) = set (Schema.Architectures c)"
    using perm by blast
  show ?thesis
    unfolding if_P[OF True] Let_def
    by (rule exI[of _ m]) (intro conjI m T1 T2 T3 A1 A2 A3 P)
next
  case False
  from parseStackFolder_legacy[OF assms False] obtain v1 ic1 where
    p: "parseStackDevfile e (pathJoin sd n) n force zeroVersion zeroSchema = Inr (v1, ic1)" and
    c: "c = ic1\<lparr>Versions := Versions ic1 @ [v1\<lparr>Default := True\<rparr>], Type := StackDevfileType\<rparr>"
    by blast
  from parseStackDevfile_Inr[OF p] obtain dvf vp where
    d: "devfileOf e (pathJoin sd n) = Some (dvf, vp)" and i: "ic1 = mergeStep zeroSchema (dvf, vp)"
    by blast
  have "Schema.Tags c = firstOccurrences (Version.Tags vp)"
    and "Schema.Architectures c = firstOccurrences (Version.Architectures vp)"
    by (simp_all add: c i mergeStep_def appendMissing_eq zeroSchema_def)
  with d False show ?thesis by simp
qed


theorem entry_tags_union_witness:
  "map_sum id Schema.Tags (parseStackFolder envJs ''r/stacks'' False ''js'') =
     Inr [''Deprecated'', ''Node'', ''Express'', ''TS''] \<and>
   map_sum id (set \<circ> Schema.Tags)
     (versionsLoop envJs ''r/stacks/js'' ''js'' False 0 (rev (Versions jsManifest)) jsManifest) =
     Inr (set [''Deprecated'', ''Node'', ''Express'', ''TS'']) \<and>
   map_sum id (distinct \<circ> Schema.Tags) (parseStackFolder envJs ''r/stacks'' False ''js'') =
     Inr True \<and>
   map_sum id Schema.Tags (parseStackFolder envGo ''r/stacks'' False ''go'') = Inr [''Go'']"
proof -
  obtain c where c: "parseStackFolder envJs ''r/stacks'' False ''js'' = Inr c"
    by (simp add: folder_defs eval_defs js_defs inArray_iff)
  have f: "fileExists envJs (pathJoin (pathJoin ''r/stacks'' ''js'') stackYaml)"
    by (simp add: eval_defs js_defs)
  have m: "parseStackInfo envJs (pathJoin (pathJoin ''r/stacks'' ''js'') stackYaml) = Inr jsManifest"
    by (simp add: folder_defs eval_defs envJs_def)
  have d: "localDevfiles envJs (pathJoin ''r/stacks'' ''js'') (Versions jsManifest) =
             [(js1Devfile, js1VersionProp), (js2Devfile, js2VersionProp)]"
    by (simp add: devfileOf_def eval_defs envJs_def jsManifest_def js1Devfile_def js2Devfile_def
          zeroSchema_def zeroVersion_def)
  obtain ic where ic:
    "versionsLoop envJs (pathJoin ''r/stacks'' ''js'') ''js'' False 0 (rev (Versions jsManifest))
       jsManifest = Inr ic"
    by (simp add: eval_defs js_defs inArray_iff)
  have p: "pathJoin ''r/stacks'' ''js'' = ''r/stacks/js''"
    by (simp add: pathJoin_def)
  from entry_tags_union[OF c] f obtain m1 where
    m1: "parseStackInfo envJs (pathJoin (pathJoin ''r/stacks'' ''js'') stackYaml) = Inr m1" and
    body: "(let ds = localDevfiles envJs (pathJoin ''r/stacks'' ''js'') (Versions m1);
                 tags = concat (map (Version.Tags \<circ> snd) ds);
                 archs = concat (map (Version.Architectures \<circ> snd) ds)
             in Schema.Tags c =
                  Schema.Tags m1 @ filter (\<lambda>t. t \<notin> set (Schema.Tags m1)) (firstOccurrences tags) \<and>
                set (Schema.Tags c) = set (Schema.Tags m1) \<union> set tags \<and>
                (distinct (Schema.Tags m1) \<longrightarrow> distinct (Schema.Tags c)) \<and>
                Schema.Architectures c =
                  Schema.Architectures m1 @
                  filter (\<lambda>a. a \<notin> set (Schema.Architectures m1)) (firstOccurrences archs) \<and>
                set (Schema.Architectures c) = set (Schema.Architectures m1) \<union> set archs \<and>
                (distinct (Schema.Architectures m1) \<longrightarrow> distinct (Schema.Architectures c)) \<and>
                (\<forall>vs ic. set vs = set (Versions m1) \<and>
                     versionsLoop envJs (pathJoin ''r/stacks'' ''js'') ''js'' False 0 vs m1 = Inr ic \<longrightarrow>
                   set (Schema.Tags ic) = set (Schema.Tags c) \<and>
                   set (Schema.Architectures ic) = set (Schema.Architectures c)))"
    by (simp only: if_True) blast
  from m1 m have "m1 = jsManifest" by simp
  with body have
    t: "Schema.Tags c = Schema.Tags jsManifest @
          filter (\<lambda>t. t \<notin> set (Schema.Tags jsManifest))
            (firstOccurrences (concat (map (Version.Tags \<circ> snd)
               (localDevfiles envJs (pathJoin ''r/stacks'' ''js'') (Versions jsManifest)))))" and
    ds: "distinct (Schema.Tags jsManifest) \<longrightarrow> distinct (Schema.Tags c)" and
    q: "\<forall>vs ic. set vs = set (Versions jsManifest) \<and>
          versionsLoop envJs (pathJoin ''r/stacks'' ''js'') ''js'' False 0 vs jsManifest = Inr ic \<longrightarrow>
          set (Schema.Tags ic) = set (Schema.Tags c) \<and>
          set (Schema.Architectures ic) = set (Schema.Architectures c)"
    unfolding Let_def by blast+
  have dm: "distinct (Schema.Tags jsManifest)"
    by (simp add: jsManifest_def zeroSchema_def)
  obtain g where g: "parseStackFolder envGo ''r/stacks'' False ''go'' = Inr g"
    by (simp add: folder_defs eval_defs go_defs inArray_iff)
  have nf: "\<not> fileExists envGo (pathJoin (pathJoin ''r/stacks'' ''go'') stackYaml)"
    by (simp add: eval_defs go_defs)
  have dg: "devfileOf envGo (pathJoin ''r/stacks'' ''go'') = Some (goDevfile, goVersionProp)"
    by (simp add: devfileOf_def eval_defs go_defs)
  from entry_tags_union[OF g] nf dg have "Schema.Tags g = firstOccurrences (Version.Tags goVersionProp)"
    by simp
  then have gt: "Schema.Tags g = [''Go'']"
    by (simp add: goVersionProp_def zeroVersion_def)
  from t have "Schema.Tags c = [''Deprecated'', ''Node'', ''Express'', ''TS'']"
    unfolding d by (simp add: jsManifest_def js1VersionProp_def js2VersionProp_def zeroSchema_def
        zeroVersion_def)
  moreover from q ic have "set (Schema.Tags ic) = set (Schema.Tags c)"
    by (metis set_rev)
  moreover from ds dm have "distinct (Schema.Tags c)" by simp
  ultimately show ?thesis using c ic g gt unfolding p by simp
qed

text \<open>
  C4 as stated fails: the entry keeps the tag \<^verbatim>\<open>Deprecated\<close> of its manifest, which no
  version has.
\<close>

theorem entry_tags_counterexample:
  "map_sum id Schema.Tags (parseStackFolder envJs ''r/stacks'' False ''js'') =
     Inr [''Deprecated'', ''Node'', ''Express'', ''TS''] \<and>
   concat (map (Version.Tags \<circ> snd) (localDevfiles envJs ''r/stacks/js'' (Versions jsManifest))) =
     [''Node'', ''Express'', ''Express'', ''TS'']"
  by (simp add: folder_defs devfileOf_def eval_defs js_defs inArray_iff)

subsection \<open>The structural check of a manifest\<close>

lemma dirExists_cases:
  "dirExists e p = Inr None \<longleftrightarrow> osStat e p = StatInfo True"
  "(\<exists>x. dirExists e p = Inl x) \<longleftrightarrow> osStat e p = StatFailed"
  "dirExists e p = Inl x \<Longrightarrow> x = PanicNilDereference"
  by (auto simp: dirExists_def split: stat.splits if_splits)


lemma validateVersions_Inl:
  "(\<exists>x. validateVersions e d vs h errs = Inl x) \<longleftrightarrow>
   (\<exists>v \<in> set vs. Version.Git v = None \<and> osStat e (pathJoin d (Version.Version v)) = StatFailed)"
proof (induction vs arbitrary: h errs)
  case Nil
  show ?case by simp
next
  case (Cons v vs)
  show ?case
    using Cons.IH dirExists_cases(2)[of e "pathJoin d (Version.Version v)"]
    by (cases "dirExists e (pathJoin d (Version.Version v))")
       (auto simp: Let_def split: option.splits)
qed


lemma validateStackInfo_panics_iff:
  "(\<exists>x. validateStackInfo e m d = Inl x) \<longleftrightarrow>
   (\<exists>v \<in> set (Versions m). Version.Git v = None \<and>
      osStat e (pathJoin d (Version.Version v)) = StatFailed)"
  unfolding validateVersions_Inl[symmetric, where e = e and d = d and vs = "Versions m"
      and h = False and errs =
      "(if Schema.Name m = [] then [StackNameNotSet] else []) @
            (if Schema.DisplayName m = [] then [StackDisplayNameNotSet] else []) @
            (if Schema.Icon m = [] then [StackIconNotSet] else []) @
            (if Versions m = [] then [StackVersionsNotSet] else [])"]
  by (auto simp: validateStackInfo_def Let_def split: sum.splits)


lemma parseStackFolder_invalid_manifest:
  assumes "fileExists e (pathJoin (pathJoin sd n) stackYaml)"
    and "parseStackInfo e (pathJoin (pathJoin sd n) stackYaml) = Inr m"
    and "validateStackInfo e m (pathJoin sd n) = Inr (err # errs)"
  shows "parseStackFolder e sd False n = Inl (StackYamlNotValid n (err # errs))"
  using assms by (simp add: parseStackFolder_def Let_def)

text \<open>
  C5. The check reports an error exactly in the six cases of the claim
  (\<open>validateStackInfo_reports_iff\<close>) and such an error ends the build before a version is
  parsed (\<open>parseStackFolder_invalid_manifest\<close>), but only when the check returns: when
  \<^verbatim>\<open>os.Stat\<close> of a version's folder fails with an error other than not-exist,
  \<^verbatim>\<open>dirExists\<close> calls \<^verbatim>\<open>IsDir\<close> on a \<^verbatim>\<open>nil\<close> value, and the check panics instead
  of reporting that the folder is missing.
\<close>

theorem validateStackInfo_panics:
  "validateStackInfo envJsBroken jsManifest ''r/stacks/js'' = Inl PanicNilDereference \<and>
   parseDevfileRegistry envJsBroken ''r'' False = Inl PanicNilDereference"
  by (simp add: parseDevfileRegistry_def folder_defs eval_defs envJsBroken_def js_defs)

subsection \<open>The catalog\<close>


lemma stackFoldersLoop_Inl:
  assumes "a \<in> set entries" and "snd a" and "parseStackFolder e sd f (fst a) = Inl err"
  shows "\<exists>err1. stackFoldersLoop e sd f entries idx = Inl err1"
  using assms
proof (induction entries arbitrary: idx)
  case Nil
  then show ?case by simp
next
  case (Cons b entries)
  then show ?case by (cases "parseStackFolder e sd f (fst b)") auto
qed


lemma Default_mergedVersion: "Default (mergedVersion e fp n v) = Default v"
proof (cases "parseStackDevfile e (pathJoin fp (Version.Version v)) n True v zeroSchema")
  case (Inl a)
  then show ?thesis by (simp add: mergedVersion_def)
next
  case (Inr r)
  then have "parseStackDevfile e (pathJoin fp (Version.Version v)) n True v zeroSchema =
               Inr (fst r, snd r)" by simp
  from parseStackDevfile_Inr[OF this] Inr show ?thesis
    by (auto simp: mergedVersion_def populateVersion_fields)
qed


lemma parseStackFolder_length:
  assumes "parseStackFolder e sd f n = Inr c"
    and "fileExists e (pathJoin (pathJoin sd n) stackYaml)"
    and "parseStackInfo e (pathJoin (pathJoin sd n) stackYaml) = Inr m"
  shows "Versions c = map (mergedVersion e (pathJoin sd n) n) (Versions m)"
proof -
  from parseStackFolder_manifest[OF assms(1,2)] assms(3) obtain ic1 where
    l: "versionsLoop e (pathJoin sd n) n f 0 (Versions m) m = Inr ic1" and
    c: "c = ic1\<lparr>Type := StackDevfileType\<rparr>" by auto
  from versionsLoop_Versions[OF l] c show ?thesis by simp
qed


text \<open>
  C10. A call of \<^verbatim>\<open>parseStackDevfile\<close> that succeeds leaves the \<^verbatim>\<open>Default\<close> flag of
  the version as it was passed in: the version is replaced by the one read back from the
  metadata, but that one takes the flag of the version passed in first. So the versions of
  an entry built from a manifest have the flags the manifest gives them, and the one
  version of a legacy stack has the flag set after the call.
\<close>

theorem parseStackDevfile_keeps_Default:
  "(parseStackDevfile e d n f v ic = Inr (v1, ic1) \<longrightarrow> Default v1 = Default v) \<and>
   (parseStackFolder e sd force name = Inr c \<and>
    fileExists e (pathJoin (pathJoin sd name) stackYaml) \<and>
    parseStackInfo e (pathJoin (pathJoin sd name) stackYaml) = Inr m \<longrightarrow>
      map Default (Versions c) = map Default (Versions m)) \<and>
   (parseStackFolder e sd force name = Inr c \<and>
    \<not> fileExists e (pathJoin (pathJoin sd name) stackYaml) \<longrightarrow>
      map Default (Versions c) = [True])"
proof (intro conjI impI)
  assume "parseStackDevfile e d n f v ic = Inr (v1, ic1)"
  from parseStackDevfile_Inr[OF this] show "Default v1 = Default v"
    by (auto simp: populateVersion_fields)
next
  assume "parseStackFolder e sd force name = Inr c \<and>
    fileExists e (pathJoin (pathJoin sd name) stackYaml) \<and>
    parseStackInfo e (pathJoin (pathJoin sd name) stackYaml) = Inr m"
  then have "Versions c = map (mergedVersion e (pathJoin sd name) name) (Versions m)"
    using parseStackFolder_length[of e sd force name c m] by simp
  then show "map Default (Versions c) = map Default (Versions m)"
    by (simp add: comp_def Default_mergedVersion)
next
  assume a: "parseStackFolder e sd force name = Inr c \<and>
    \<not> fileExists e (pathJoin (pathJoin sd name) stackYaml)"
  with parseStackFolder_legacy[of e sd force name c] obtain v2 ic2 where
    p: "parseStackDevfile e (pathJoin sd name) name force zeroVersion zeroSchema = Inr (v2, ic2)" and
    c: "c = ic2\<lparr>Versions := Versions ic2 @ [v2\<lparr>Default := True\<rparr>], Type := StackDevfileType\<rparr>"
    by blast
  from parseStackDevfile_Inr[OF p] have "Versions ic2 = []"
    by (auto simp: mergeStep_Versions zeroSchema_def)
  with c show "map Default (Versions c) = [True]" by simp
qed

theorem parseStackDevfile_keeps_Default_witness:
  "map_sum id (Default \<circ> fst)
     (parseStackDevfile envGo ''r/stacks/go'' ''go'' False (zeroVersion\<lparr>Default := True\<rparr>)
        zeroSchema) = Inr True \<and>
   map_sum id (map Default \<circ> Versions) (parseStackFolder envJs ''r/stacks'' False ''js'') =
     Inr [True, False, False] \<and>
   map_sum id (map Default \<circ> Versions) (parseStackFolder envGo ''r/stacks'' False ''go'') =
     Inr [True]"
proof -
  obtain r where r:
    "parseStackDevfile envGo ''r/stacks/go'' ''go'' False (zeroVersion\<lparr>Default := True\<rparr>)
       zeroSchema = Inr r"
    by (simp add: eval_defs go_defs inArray_iff)
  obtain c where c: "parseStackFolder envJs ''r/stacks'' False ''js'' = Inr c"
    by (simp add: folder_defs eval_defs js_defs inArray_iff)
  have f: "fileExists envJs (pathJoin (pathJoin ''r/stacks'' ''js'') stackYaml)"
    by (simp add: eval_defs js_defs)
  have m: "parseStackInfo envJs (pathJoin (pathJoin ''r/stacks'' ''js'') stackYaml) = Inr jsManifest"
    by (simp add: folder_defs eval_defs envJs_def)
  obtain g where g: "parseStackFolder envGo ''r/stacks'' False ''go'' = Inr g"
    by (simp add: folder_defs eval_defs go_defs inArray_iff)
  have nf: "\<not> fileExists envGo (pathJoin (pathJoin ''r/stacks'' ''go'') stackYaml)"
    by (simp add: eval_defs go_defs)
  from parseStackDevfile_keeps_Default[where e = envGo and d = "''r/stacks/go''" and n = "''go''"
      and f = False and v = "zeroVersion\<lparr>Default := True\<rparr>" and ic = zeroSchema
      and ?v1.0 = "fst r" and ?ic1.0 = "snd r" and sd = "''r/stacks''" and force = False
      and name = "''go''" and c = g] r g nf
  have "Default (fst r) = True" and "map Default (Versions g) = [True]"
    by simp_all
  moreover
  from parseStackDevfile_keeps_Default[where e = envJs and sd = "''r/stacks''" and force = False
      and name = "''js''" and c = c and m = jsManifest and d = "''r/stacks/go''" and n = "''go''"
      and f = False and v = zeroVersion and ic = zeroSchema and ?v1.0 = zeroVersion
      and ?ic1.0 = zeroSchema] c f m
  have "map Default (Versions c) = [True, False, False]"
    by (simp add: jsManifest_def zeroSchema_def zeroVersion_def)
  ultimately show ?thesis using r c g by simp
qed





lemma firstNonEmpty_Cons: "x \<noteq> [] \<Longrightarrow> firstNonEmpty (x # xs) = x"
  by simp









subsection \<open>The validation policy\<close>












lemma GenerateIndexStruct_extra:
  assumes "parseDevfileRegistry e reg f = Inr index"
    and "fileExists e (pathJoin reg extraDevfileEntries)"
    and "parseExtraDevfileEntries e reg f = (Inl err, out)"
  shows "GenerateIndexStruct e reg f = (Inl err, out)"
  using assms by (simp add: GenerateIndexStruct_def)






subsection \<open>Locating the devfile\<close>

lemma parseStackDevfile_both:
  assumes "fileExists e (pathJoin d devfile)" and "fileExists e (pathJoin d devfileHidden)"
  shows "parseStackDevfile e d n f v ic =
           Inl (BothExist (pathJoin d devfile) (pathJoin d devfileHidden))"
  using assms by (simp add: parseStackDevfile_def devfileLocation_def Let_def)

lemma versionsLoop_Inl:
  assumes "v \<in> set vs" and "Version.Git v = None"
    and "\<And>ic0. \<exists>err. parseStackDevfile e (pathJoin fp (Version.Version v)) n f v ic0 = Inl err"
  shows "\<exists>err. versionsLoop e fp n f i vs ic = Inl err"
  using assms(1)
proof (induction vs arbitrary: i ic)
  case Nil
  then show ?case by simp
next
  case (Cons a vs)
  show ?case
  proof (cases "a = v")
    case True
    with assms(2) assms(3)[of ic] show ?thesis by auto
  next
    case False
    with Cons.prems have "v \<in> set vs" by simp
    from Cons.IH[OF this] show ?thesis
      by (cases "parseStackDevfile e (pathJoin fp (Version.Version a)) n f a ic") auto
  qed
qed

lemma parseDevfileRegistry_Inl:
  assumes "ioReadDir e (pathJoin reg ''stacks'') = Some entries"
    and "(name, True) \<in> set entries"
    and "parseStackFolder e (pathJoin reg ''stacks'') f name = Inl err"
  shows "\<exists>err1. parseDevfileRegistry e reg f = Inl err1"
  using stackFoldersLoop_Inl[of "(name, True)" entries e "pathJoin reg ''stacks''" f err "[]"] assms
  by (simp add: parseDevfileRegistry_def Let_def)

lemma versionsLoop_append:
  "versionsLoop e fp n f i (xs @ ys) ic =
     (case versionsLoop e fp n f i xs ic of
        Inl err \<Rightarrow> Inl err
      | Inr ic1 \<Rightarrow> versionsLoop e fp n f (i + length xs) ys ic1)"
proof (induction xs arbitrary: i ic)
  case Nil
  then show ?case by simp
next
  case (Cons a xs)
  show ?case
  proof (cases "Version.Git a = None")
    case True
    then show ?thesis
      by (cases "parseStackDevfile e (pathJoin fp (Version.Version a)) n f a ic")
         (simp_all add: Cons.IH split: prod.splits cong: sum.case_cong)
  next
    case False
    then obtain g where "Version.Git a = Some g" by auto
    then show ?thesis by (simp add: Cons.IH cong: sum.case_cong)
  qed
qed

lemma stackFoldersLoop_append:
  "stackFoldersLoop e sd f (xs @ ys) index =
     (case stackFoldersLoop e sd f xs index of
        Inl err \<Rightarrow> Inl err
      | Inr index1 \<Rightarrow> stackFoldersLoop e sd f ys index1)"
proof (induction xs arbitrary: index)
  case Nil
  then show ?case by simp
next
  case (Cons a xs)
  show ?case
    by (cases "parseStackFolder e sd f (fst a)") (simp_all add: Cons.IH cong: sum.case_cong)
qed

lemma GenerateIndexStruct_Inl:
  "parseDevfileRegistry e reg f = Inl err \<Longrightarrow> GenerateIndexStruct e reg f = (Inl err, [])"
  by (simp add: GenerateIndexStruct_def)

lemma parseStackFolder_first_both:
  assumes y: "fileExists e (pathJoin (pathJoin sd name) stackYaml)"
    and m: "parseStackInfo e (pathJoin (pathJoin sd name) stackYaml) = Inr m"
    and ok: "f \<or> validateStackInfo e m (pathJoin sd name) = Inr []"
    and vs: "Versions m = pre @ ver # post"
    and pre: "versionsLoop e (pathJoin sd name) name f 0 pre m = Inr ic1"
    and g: "Version.Git ver = None"
    and b: "fileExists e (pathJoin (pathJoin (pathJoin sd name) (Version.Version ver)) devfile)"
           "fileExists e (pathJoin (pathJoin (pathJoin sd name) (Version.Version ver)) devfileHidden)"
  shows "parseStackFolder e sd f name =
           Inl (BothExist (pathJoin (pathJoin (pathJoin sd name) (Version.Version ver)) devfile)
                  (pathJoin (pathJoin (pathJoin sd name) (Version.Version ver)) devfileHidden))"
proof -
  have "versionsLoop e (pathJoin sd name) name f 0 (Versions m) m =
          Inl (BothExist (pathJoin (pathJoin (pathJoin sd name) (Version.Version ver)) devfile)
                 (pathJoin (pathJoin (pathJoin sd name) (Version.Version ver)) devfileHidden))"
    unfolding vs versionsLoop_append pre using g b by (simp add: parseStackDevfile_both)
  moreover have "(if \<not> f then validateStackInfo e m (pathJoin sd name) else Inr []) = Inr []"
    using ok by auto
  ultimately show ?thesis using y m by (simp add: parseStackFolder_def Let_def)
qed

lemma parseDevfileRegistry_first_Inl:
  assumes "ioReadDir e (pathJoin reg ''stacks'') = Some (pre @ (name, True) # post)"
    and "stackFoldersLoop e (pathJoin reg ''stacks'') f pre [] = Inr index"
    and "parseStackFolder e (pathJoin reg ''stacks'') f name = Inl err"
  shows "parseDevfileRegistry e reg f = Inl err"
  using assms by (simp add: parseDevfileRegistry_def Let_def stackFoldersLoop_append)


text \<open>
  C7. In a directory that holds both \<^verbatim>\<open>devfile.yaml\<close> and \<^verbatim>\<open>.devfile.yaml\<close>,
  \<^verbatim>\<open>parseStackDevfile\<close> returns the error that both exist, whatever its other arguments
  are. With only \<^verbatim>\<open>.devfile.yaml\<close> there, that file is the one located, and what a
  successful call merges is what was read from it. When the directory is the folder of a
  stack without a manifest, or the folder of a version without a remote source of a stack
  with a manifest, \<^verbatim>\<open>GenerateIndexStruct\<close> returns an error and no index. The error is
  the one that both exist when nothing fails before that directory is reached: the folder
  of the stack returns it when the manifest passes its check (or the check is skipped) and
  the versions declared before this one are merged, and the build returns the error of the
  first stack folder that fails.
\<close>

theorem both_devfiles_fail_the_build:
  "(fileExists e (pathJoin d devfile) \<and> fileExists e (pathJoin d devfileHidden) \<longrightarrow>
      parseStackDevfile e d n f v ic =
        Inl (BothExist (pathJoin d devfile) (pathJoin d devfileHidden))) \<and>
   (\<not> fileExists e (pathJoin d devfile) \<and> fileExists e (pathJoin d devfileHidden) \<longrightarrow>
      devfileLocation e d = Inr (pathJoin d devfileHidden) \<and>
      (\<forall>v1 ic1. parseStackDevfile e d n f v ic = Inr (v1, ic1) \<longrightarrow>
         (\<exists>dvf vp. readDevfile e (pathJoin d devfileHidden) = Inr (dvf, vp) \<and>
            ic1 = mergeStep ic (dvf, vp)))) \<and>
   (ioReadDir e (pathJoin reg ''stacks'') = Some entries \<and> (name, True) \<in> set entries \<and>
    \<not> fileExists e (pathJoin (pathJoin (pathJoin reg ''stacks'') name) stackYaml) \<and>
    fileExists e (pathJoin (pathJoin (pathJoin reg ''stacks'') name) devfile) \<and>
    fileExists e (pathJoin (pathJoin (pathJoin reg ''stacks'') name) devfileHidden) \<longrightarrow>
      parseStackFolder e (pathJoin reg ''stacks'') f name =
        Inl (BothExist (pathJoin (pathJoin (pathJoin reg ''stacks'') name) devfile)
               (pathJoin (pathJoin (pathJoin reg ''stacks'') name) devfileHidden)) \<and>
      (\<exists>err. parseDevfileRegistry e reg f = Inl err \<and>
             GenerateIndexStruct e reg f = (Inl err, []))) \<and>
   (ioReadDir e (pathJoin reg ''stacks'') = Some entries \<and> (name, True) \<in> set entries \<and>
    fileExists e (pathJoin (pathJoin (pathJoin reg ''stacks'') name) stackYaml) \<and>
    parseStackInfo e (pathJoin (pathJoin (pathJoin reg ''stacks'') name) stackYaml) = Inr m \<and>
    ver \<in> set (Versions m) \<and> Version.Git ver = None \<and>
    fileExists e (pathJoin (pathJoin (pathJoin (pathJoin reg ''stacks'') name)
                    (Version.Version ver)) devfile) \<and>
    fileExists e (pathJoin (pathJoin (pathJoin (pathJoin reg ''stacks'') name)
                    (Version.Version ver)) devfileHidden) \<longrightarrow>
      (\<exists>err. parseDevfileRegistry e reg f = Inl err \<and>
             GenerateIndexStruct e reg f = (Inl err, []))) \<and>
   (fileExists e (pathJoin (pathJoin (pathJoin reg ''stacks'') name) stackYaml) \<and>
    parseStackInfo e (pathJoin (pathJoin (pathJoin reg ''stacks'') name) stackYaml) = Inr m \<and>
    (f \<or> validateStackInfo e m (pathJoin (pathJoin reg ''stacks'') name) = Inr []) \<and>
    Versions m = before @ ver # after \<and>
    versionsLoop e (pathJoin (pathJoin reg ''stacks'') name) name f 0 before m = Inr merged \<and>
    Version.Git ver = None \<and>
    fileExists e (pathJoin (pathJoin (pathJoin (pathJoin reg ''stacks'') name)
                    (Version.Version ver)) devfile) \<and>
    fileExists e (pathJoin (pathJoin (pathJoin (pathJoin reg ''stacks'') name)
                    (Version.Version ver)) devfileHidden) \<longrightarrow>
      parseStackFolder e (pathJoin reg ''stacks'') f name =
        Inl (BothExist (pathJoin (pathJoin (pathJoin (pathJoin reg ''stacks'') name)
                          (Version.Version ver)) devfile)
               (pathJoin (pathJoin (pathJoin (pathJoin reg ''stacks'') name)
                          (Version.Version ver)) devfileHidden))) \<and>
   (ioReadDir e (pathJoin reg ''stacks'') = Some (earlier @ (name, True) # later) \<and>
    stackFoldersLoop e (pathJoin reg ''stacks'') f earlier [] = Inr index \<and>
    parseStackFolder e (pathJoin reg ''stacks'') f name = Inl failure \<longrightarrow>
      parseDevfileRegistry e reg f = Inl failure \<and>
      GenerateIndexStruct e reg f = (Inl failure, []))"
proof (intro conjI impI allI)
  assume "fileExists e (pathJoin d devfile) \<and> fileExists e (pathJoin d devfileHidden)"
  then show "parseStackDevfile e d n f v ic =
               Inl (BothExist (pathJoin d devfile) (pathJoin d devfileHidden))"
    by (simp add: parseStackDevfile_both)
next
  assume a: "\<not> fileExists e (pathJoin d devfile) \<and> fileExists e (pathJoin d devfileHidden)"
  then show l: "devfileLocation e d = Inr (pathJoin d devfileHidden)"
    by (simp add: devfileLocation_def Let_def)
  fix v1 ic1 assume "parseStackDevfile e d n f v ic = Inr (v1, ic1)"
  from parseStackDevfile_Inr[OF this] l
  show "\<exists>dvf vp. readDevfile e (pathJoin d devfileHidden) = Inr (dvf, vp) \<and>
          ic1 = mergeStep ic (dvf, vp)"
    by (auto simp: devfileOf_def split: sum.splits)
next
  let ?fp = "pathJoin (pathJoin reg ''stacks'') name"
  assume a: "ioReadDir e (pathJoin reg ''stacks'') = Some entries \<and> (name, True) \<in> set entries \<and>
    \<not> fileExists e (pathJoin ?fp stackYaml) \<and>
    fileExists e (pathJoin ?fp devfile) \<and> fileExists e (pathJoin ?fp devfileHidden)"
  then show p: "parseStackFolder e (pathJoin reg ''stacks'') f name =
        Inl (BothExist (pathJoin ?fp devfile) (pathJoin ?fp devfileHidden))"
    by (simp add: parseStackFolder_def Let_def parseStackDevfile_both)
  from parseDevfileRegistry_Inl[OF _ _ p] a
  obtain err where "parseDevfileRegistry e reg f = Inl err" by blast
  with GenerateIndexStruct_Inl[OF this]
  show "\<exists>err. parseDevfileRegistry e reg f = Inl err \<and>
          GenerateIndexStruct e reg f = (Inl err, [])" by blast
next
  let ?fp = "pathJoin (pathJoin reg ''stacks'') name"
  assume a: "ioReadDir e (pathJoin reg ''stacks'') = Some entries \<and> (name, True) \<in> set entries \<and>
    fileExists e (pathJoin ?fp stackYaml) \<and>
    parseStackInfo e (pathJoin ?fp stackYaml) = Inr m \<and>
    ver \<in> set (Versions m) \<and> Version.Git ver = None \<and>
    fileExists e (pathJoin (pathJoin ?fp (Version.Version ver)) devfile) \<and>
    fileExists e (pathJoin (pathJoin ?fp (Version.Version ver)) devfileHidden)"
  then have "\<exists>err. versionsLoop e ?fp name f 0 (Versions m) m = Inl err"
    by (intro versionsLoop_Inl[of ver]) (simp_all add: parseStackDevfile_both)
  with a have "\<exists>err. parseStackFolder e (pathJoin reg ''stacks'') f name = Inl err"
    by (auto simp: parseStackFolder_def Let_def split: sum.splits list.splits)
  with parseDevfileRegistry_Inl a
  obtain err where "parseDevfileRegistry e reg f = Inl err" by blast
  with GenerateIndexStruct_Inl[OF this]
  show "\<exists>err. parseDevfileRegistry e reg f = Inl err \<and>
          GenerateIndexStruct e reg f = (Inl err, [])" by blast
next
  let ?fp = "pathJoin (pathJoin reg ''stacks'') name"
  assume a: "fileExists e (pathJoin ?fp stackYaml) \<and>
    parseStackInfo e (pathJoin ?fp stackYaml) = Inr m \<and>
    (f \<or> validateStackInfo e m ?fp = Inr []) \<and>
    Versions m = before @ ver # after \<and>
    versionsLoop e ?fp name f 0 before m = Inr merged \<and>
    Version.Git ver = None \<and>
    fileExists e (pathJoin (pathJoin ?fp (Version.Version ver)) devfile) \<and>
    fileExists e (pathJoin (pathJoin ?fp (Version.Version ver)) devfileHidden)"
  then show "parseStackFolder e (pathJoin reg ''stacks'') f name =
        Inl (BothExist (pathJoin (pathJoin ?fp (Version.Version ver)) devfile)
               (pathJoin (pathJoin ?fp (Version.Version ver)) devfileHidden))"
    by (intro parseStackFolder_first_both[where m = m and pre = before and post = after
          and ?ic1.0 = merged]) simp_all
next
  assume a: "ioReadDir e (pathJoin reg ''stacks'') = Some (earlier @ (name, True) # later) \<and>
    stackFoldersLoop e (pathJoin reg ''stacks'') f earlier [] = Inr index \<and>
    parseStackFolder e (pathJoin reg ''stacks'') f name = Inl failure"
  then have a1: "ioReadDir e (pathJoin reg ''stacks'') = Some (earlier @ (name, True) # later)"
    and a2: "stackFoldersLoop e (pathJoin reg ''stacks'') f earlier [] = Inr index"
    and a3: "parseStackFolder e (pathJoin reg ''stacks'') f name = Inl failure"
    by simp_all
  from parseDevfileRegistry_first_Inl[OF a1 a2 a3]
  show r: "parseDevfileRegistry e reg f = Inl failure" .
  from GenerateIndexStruct_Inl[OF r]
  show "GenerateIndexStruct e reg f = (Inl failure, [])" .
qed

theorem both_devfiles_fail_the_build_witness:
  "parseStackDevfile envGoBoth ''r/stacks/go'' ''go'' False zeroVersion zeroSchema =
     Inl (BothExist ''r/stacks/go/devfile.yaml'' ''r/stacks/go/.devfile.yaml'') \<and>
   devfileLocation envJs ''r/stacks/js/2'' = Inr ''r/stacks/js/2/.devfile.yaml'' \<and>
   map_sum id (Schema.Language \<circ> snd)
     (parseStackDevfile envJs ''r/stacks/js/2'' ''js'' False zeroVersion zeroSchema) =
     Inr ''typescript'' \<and>
   parseStackFolder envGoBoth ''r/stacks'' False ''go'' =
     Inl (BothExist ''r/stacks/go/devfile.yaml'' ''r/stacks/go/.devfile.yaml'') \<and>
   GenerateIndexStruct envGoBoth ''r'' False =
     (Inl (BothExist ''r/stacks/go/devfile.yaml'' ''r/stacks/go/.devfile.yaml''), []) \<and>
   isl (fst (GenerateIndexStruct envJsBoth ''r'' True)) \<and>
   parseStackFolder envJsBoth ''r/stacks'' False ''js'' =
     Inl (BothExist ''r/stacks/js/2/devfile.yaml'' ''r/stacks/js/2/.devfile.yaml'') \<and>
   GenerateIndexStruct envJsBoth ''r'' False =
     (Inl (BothExist ''r/stacks/js/2/devfile.yaml'' ''r/stacks/js/2/.devfile.yaml''), [])"
proof -
  have p: "pathJoin ''r'' ''stacks'' = ''r/stacks''"
    "pathJoin ''r/stacks'' ''go'' = ''r/stacks/go''"
    "pathJoin ''r/stacks'' ''js'' = ''r/stacks/js''"
    "pathJoin ''r/stacks/js'' ''2'' = ''r/stacks/js/2''"
    "pathJoin ''r/stacks/go'' devfile = ''r/stacks/go/devfile.yaml''"
    "pathJoin ''r/stacks/go'' devfileHidden = ''r/stacks/go/.devfile.yaml''"
    "pathJoin ''r/stacks/go'' stackYaml = ''r/stacks/go/stack.yaml''"
    "pathJoin ''r/stacks/js'' stackYaml = ''r/stacks/js/stack.yaml''"
    "pathJoin ''r/stacks/js/2'' devfile = ''r/stacks/js/2/devfile.yaml''"
    "pathJoin ''r/stacks/js/2'' devfileHidden = ''r/stacks/js/2/.devfile.yaml''"
    by (simp_all add: pathJoin_def devfile_def devfileHidden_def stackYaml_def)
  have go: "fileExists envGoBoth ''r/stacks/go/devfile.yaml''"
    "fileExists envGoBoth ''r/stacks/go/.devfile.yaml''"
    "\<not> fileExists envGoBoth ''r/stacks/go/stack.yaml''"
    "ioReadDir envGoBoth ''r/stacks'' = Some [(''go'', True)]"
    by (simp_all add: fileExists_def envGoBoth_def envGo_def)
  have js: "\<not> fileExists envJs ''r/stacks/js/2/devfile.yaml''"
    "fileExists envJs ''r/stacks/js/2/.devfile.yaml''"
    by (simp_all add: fileExists_def envJs_def)
  have jsb: "fileExists envJsBoth ''r/stacks/js/2/devfile.yaml''"
    "fileExists envJsBoth ''r/stacks/js/2/.devfile.yaml''"
    "fileExists envJsBoth ''r/stacks/js/stack.yaml''"
    "ioReadDir envJsBoth ''r/stacks'' = Some [(''README.md'', False), (''js'', True)]"
    "parseStackInfo envJsBoth ''r/stacks/js/stack.yaml'' = Inr jsManifest"
    by (simp_all add: fileExists_def envJsBoth_def envJs_def parseStackInfo_def)
  have v2: "zeroVersion\<lparr>Version.Version := ''2''\<rparr> \<in> set (Versions jsManifest)"
    "Version.Git (zeroVersion\<lparr>Version.Version := ''2''\<rparr>) = None"
    "Version.Version (zeroVersion\<lparr>Version.Version := ''2''\<rparr>) = ''2''"
    by (simp_all add: jsManifest_def zeroSchema_def zeroVersion_def)
  have vs: "Versions jsManifest =
      [zeroVersion\<lparr>Version.Version := ''1'', Default := True\<rparr>] @
      zeroVersion\<lparr>Version.Version := ''2''\<rparr> #
      [zeroVersion\<lparr>Version.Version := ''3'', Version.Git := Some jsRemote\<rparr>]"
    by (simp add: jsManifest_def zeroSchema_def)
  have ok: "validateStackInfo envJsBoth jsManifest ''r/stacks/js'' = Inr []"
    by (simp add: folder_defs eval_defs envJsBoth_def js_defs)
  obtain merged where pre: "versionsLoop envJsBoth ''r/stacks/js'' ''js'' False 0
      [zeroVersion\<lparr>Version.Version := ''1'', Default := True\<rparr>] jsManifest = Inr merged"
    by (simp add: eval_defs envJsBoth_def js_defs inArray_iff)
  have skip: "stackFoldersLoop envJsBoth ''r/stacks'' False [(''README.md'', False)] [] = Inr []"
    "stackFoldersLoop envGoBoth ''r/stacks'' False [] [] = Inr []"
    by simp_all
  obtain r where r:
    "parseStackDevfile envJs ''r/stacks/js/2'' ''js'' False zeroVersion zeroSchema = Inr r"
    by (simp add: eval_defs js_defs inArray_iff)
  have rd: "readDevfile envJs ''r/stacks/js/2/.devfile.yaml'' = Inr (js2Devfile, js2VersionProp)"
    by (simp add: readDevfile_def envJs_def js2Devfile_def zeroSchema_def)
  note goThm = both_devfiles_fail_the_build[where e = envGoBoth and d = "''r/stacks/go''"
      and n = "''go''" and f = False and v = zeroVersion and ic = zeroSchema and reg = "''r''"
      and entries = "[(''go'', True)]" and name = "''go''" and earlier = "[]" and later = "[]"
      and index = "[]"
      and failure = "BothExist ''r/stacks/go/devfile.yaml'' ''r/stacks/go/.devfile.yaml''"]
  from goThm go
  have w1: "parseStackDevfile envGoBoth ''r/stacks/go'' ''go'' False zeroVersion zeroSchema =
     Inl (BothExist ''r/stacks/go/devfile.yaml'' ''r/stacks/go/.devfile.yaml'')"
    and w3: "parseStackFolder envGoBoth ''r/stacks'' False ''go'' =
     Inl (BothExist ''r/stacks/go/devfile.yaml'' ''r/stacks/go/.devfile.yaml'')"
    unfolding p by auto
  from goThm go skip w3
  have w4: "GenerateIndexStruct envGoBoth ''r'' False =
     (Inl (BothExist ''r/stacks/go/devfile.yaml'' ''r/stacks/go/.devfile.yaml''), [])"
    unfolding p by simp
  from both_devfiles_fail_the_build[where e = envJs and d = "''r/stacks/js/2''"
      and n = "''js''" and f = False and v = zeroVersion and ic = zeroSchema] js r rd
  have w2: "devfileLocation envJs ''r/stacks/js/2'' = Inr ''r/stacks/js/2/.devfile.yaml''"
    and w2a: "snd r = mergeStep zeroSchema (js2Devfile, js2VersionProp)"
    unfolding p by (auto simp: prod_eq_iff)
  from both_devfiles_fail_the_build[where e = envJsBoth and reg = "''r''"
      and entries = "[(''README.md'', False), (''js'', True)]" and name = "''js''"
      and m = jsManifest and ver = "zeroVersion\<lparr>Version.Version := ''2''\<rparr>" and f = True
      and d = "''r/stacks/js/2''" and n = "''js''" and v = zeroVersion and ic = zeroSchema,
      THEN conjunct2, THEN conjunct2, THEN conjunct2, THEN conjunct1]
    jsb v2
  have w5: "isl (fst (GenerateIndexStruct envJsBoth ''r'' True))"
    unfolding p v2(3) p by auto
  note jsThm = both_devfiles_fail_the_build[where e = envJsBoth and reg = "''r''"
      and name = "''js''" and m = jsManifest
      and ver = "zeroVersion\<lparr>Version.Version := ''2''\<rparr>" and f = False
      and before = "[zeroVersion\<lparr>Version.Version := ''1'', Default := True\<rparr>]"
      and after = "[zeroVersion\<lparr>Version.Version := ''3'', Version.Git := Some jsRemote\<rparr>]"
      and merged = merged and earlier = "[(''README.md'', False)]" and later = "[]"
      and index = "[]"
      and failure = "BothExist ''r/stacks/js/2/devfile.yaml'' ''r/stacks/js/2/.devfile.yaml''"]
  from jsThm jsb v2 vs ok pre
  have w6: "parseStackFolder envJsBoth ''r/stacks'' False ''js'' =
     Inl (BothExist ''r/stacks/js/2/devfile.yaml'' ''r/stacks/js/2/.devfile.yaml'')"
    unfolding p v2(3) p by simp
  from jsThm jsb skip w6
  have w7: "GenerateIndexStruct envJsBoth ''r'' False =
     (Inl (BothExist ''r/stacks/js/2/devfile.yaml'' ''r/stacks/js/2/.devfile.yaml''), [])"
    unfolding p by simp
  from w2a have "Schema.Language (snd r) = ''typescript''"
    by (simp add: mergeStep_def setCommonProperties_def js2Devfile_def zeroSchema_def)
  with w1 w2 w3 w4 w5 w6 w7 r show ?thesis by simp
qed

subsection \<open>The interrupt handler\<close>



lemma fsRemoveAll_None:
  assumes "fsRemoveAll p fs = (None, fs1)"
  shows "nodes fs1 = filter (\<lambda>node. \<not> prefix p (fst node)) (nodes fs)"
proof -
  let ?fs1 = "fs\<lparr>nodes := filter (\<lambda>node. fsBlocked fs p (fst node) \<or> \<not> prefix p (fst node))
                                (nodes fs)\<rparr>"
  let ?left = "\<exists>node \<in> set (nodes ?fs1). prefix p (fst node)"
  have u: "fsRemoveAll p fs = (if ?left then (Some (RemoveFailed p), ?fs1) else (None, ?fs1))"
    unfolding fsRemoveAll_def Let_def ..
  have e: "\<not> ?left"
  proof
    assume ?left
    then have "fsRemoveAll p fs = (Some (RemoveFailed p), ?fs1)" by (simp only: u if_True)
    with assms show False by simp
  qed
  then have "fsRemoveAll p fs = (None, ?fs1)" by (simp only: u if_False)
  with assms have f: "fs1 = ?fs1" by simp
  then have
    n: "nodes fs1 = filter (\<lambda>node. fsBlocked fs p (fst node) \<or> \<not> prefix p (fst node)) (nodes fs)"
    by simp
  have "(fsBlocked fs p (fst node) \<or> \<not> prefix p (fst node)) = (\<not> prefix p (fst node))"
    if m: "node \<in> set (nodes fs)" for node
  proof (cases "prefix p (fst node)")
    case True
    have "\<not> fsBlocked fs p (fst node)"
    proof
      assume "fsBlocked fs p (fst node)"
      with m have "node \<in> set (nodes ?fs1)" by simp
      with e True show False by blast
    qed
    with True show ?thesis by simp
  next
    case False
    then show ?thesis by simp
  qed
  then show ?thesis unfolding n by (intro filter_cong) simp_all
qed


lemma fsEntries_filter:
  assumes "nodes fs1 = filter Q (nodes fs)"
    and "\<And>node. node \<in> set (nodes fs) \<Longrightarrow> fst node \<noteq> [] \<Longrightarrow> butlast (fst node) = p \<Longrightarrow>
           Q node = R (last (fst node))"
  shows "fsEntries fs1 p = filter R (fsEntries fs p)"
proof -
  have "filter (\<lambda>node. fst node \<noteq> [] \<and> butlast (fst node) = p) (filter Q (nodes fs)) =
        filter (R \<circ> (last \<circ> fst)) (filter (\<lambda>node. fst node \<noteq> [] \<and> butlast (fst node) = p) (nodes fs))"
    using assms(2) by (auto intro!: filter_cong)
  then show ?thesis
    by (simp add: fsEntries_def assms(1) filter_map)
qed


lemma fsEntries_fsRemoveAll:
  assumes "fsRemoveAll src fs1 = (None, fs2)"
  shows "fsEntries fs2 d = filter (\<lambda>name. \<not> prefix src (d @ [name])) (fsEntries fs1 d)"
proof (rule fsEntries_filter[OF fsRemoveAll_None[OF assms]])
  fix node :: "string list \<times> bool"
  assume "fst node \<noteq> []" "butlast (fst node) = d"
  then have "fst node = d @ [last (fst node)]"
    by (metis append_butlast_last_id)
  then show "(\<not> prefix src (fst node)) = (\<not> prefix src (d @ [last (fst node)]))"
    by simp
qed
































subsection \<open>The remote fetch\<close>

lemmas fetch_defs =
  downloadRemoteStack_def finishDownload_def worldDefaultBranch_def gitCommit_def
  commitRevision_def isHexHash_def NewBranchReferenceName_def NewTagReferenceName_def
  pathJoin_def Let_def

lemma downloadRemoteStack_retry:
  assumes "Git.SubDir git = [] \<and> path = p0 \<or> Git.SubDir git \<noteq> [] \<and> TempDir w = Some path"
  shows "(let revision = (if IsHash w (Git.Revision git) then [] else Git.Revision git);
              opts = \<lparr>URL = Git.Url git, CloneOptions.RemoteName = Git.RemoteName git,
                      ReferenceName = (if revision \<noteq> [] then NewBranchReferenceName revision
                                       else Git.Revision git),
                      SingleBranch = True, Depth = 1\<rparr>;
              tagOpts = opts\<lparr>ReferenceName := NewTagReferenceName revision\<rparr>
          in filter (\<lambda>ev. case ev of Clone p o1 \<Rightarrow> True | _ \<Rightarrow> False)
               (snd (downloadRemoteStack w git p0)) =
               (if PlainClone w 0 path opts = Some NoMatchingRefSpecError \<and> revision \<noteq> []
                then [Clone path opts, Clone path tagOpts] else [Clone path opts]) \<and>
             (case PlainClone w 0 path opts of
                None \<Rightarrow> True
              | Some err \<Rightarrow>
                  fst (downloadRemoteStack w git p0) =
                    (if err = NoMatchingRefSpecError \<and> revision \<noteq> []
                     then (case PlainClone w 1 path tagOpts of
                             None \<Rightarrow> fst (finishDownload w git (if Git.SubDir git = [] then [] else p0) path)
                           | Some err2 \<Rightarrow> Some err2)
                     else Some err)))"
proof -
  let ?opts = "\<lparr>URL = Git.Url git, CloneOptions.RemoteName = Git.RemoteName git,
     ReferenceName =
       (if (if IsHash w (Git.Revision git) then [] else Git.Revision git) \<noteq> []
        then NewBranchReferenceName (if IsHash w (Git.Revision git) then [] else Git.Revision git)
        else Git.Revision git),
     SingleBranch = True, Depth = 1\<rparr>"
  from assms consider
    (plain) "Git.SubDir git = []" "path = p0" |
    (staged) "Git.SubDir git \<noteq> []" "TempDir w = Some path" by blast
  then show ?thesis
  proof cases
    case plain
    show ?thesis
    proof (cases "PlainClone w 0 path ?opts")
      case None
      with plain show ?thesis
        by (simp add: downloadRemoteStack_def finishDownload_def Let_def)
    next
      case (Some err)
      with plain show ?thesis
        by (simp add: downloadRemoteStack_def finishDownload_def Let_def split: option.splits)
    qed
  next
    case staged
    show ?thesis
    proof (cases "PlainClone w 0 path ?opts")
      case None
      with staged show ?thesis
        by (simp add: downloadRemoteStack_def finishDownload_def Let_def)
    next
      case (Some err)
      with staged show ?thesis
        by (simp add: downloadRemoteStack_def finishDownload_def Let_def split: option.splits)
    qed
  qed
qed

text \<open>
  C6. With a revision that is not a commit hash the function does what the claim says
  (\<open>downloadRemoteStack_retry\<close>: the branch first, one retry with the tag exactly when the
  first clone finds no matching reference and a revision is given, every other error
  returned). With a commit hash it does not go on as if no revision were given: the
  reference name was taken from the revision before the revision is cleared, so the clone
  asks for a reference named by the hash, where a download without a revision asks for
  none and gets the default branch.
\<close>

theorem downloadRemoteStack_commit_hash:
  "downloadRemoteStack worldDefaultBranch gitCommit ''dest'' =
     (Some NoMatchingRefSpecError,
      [PrintCommitNotSupported,
       Clone ''dest'' \<lparr>URL = ''https://example.com/app.git'', CloneOptions.RemoteName = ''origin'',
                       ReferenceName = ''0123456789abcdef0123456789abcdef01234567'',
                       SingleBranch = True, Depth = 1\<rparr>]) \<and>
   downloadRemoteStack worldDefaultBranch (gitCommit\<lparr>Revision := []\<rparr>) ''dest'' =
     (None,
      [Clone ''dest'' \<lparr>URL = ''https://example.com/app.git'', CloneOptions.RemoteName = ''origin'',
                       ReferenceName = [], SingleBranch = True, Depth = 1\<rparr>,
       Remove ''dest/.git''])"
  by (simp add: fetch_defs)

end
